theory Spec2Isabelle
  imports Complex_Main "HOL-Library.Word"
begin

section \<open>Data model of the analyze route\<close>

text \<open>
  The route handler \<^verbatim>\<open>POST\<close> and its two helpers \<^verbatim>\<open>extractTextFromFile\<close> and
  \<^verbatim>\<open>summarizeEarningsCall\<close> are embedded as functions that return their result together
  with the list of external calls they made, in order. A JavaScript string is the list of
  its UTF-16 code units, so \<open>length\<close> is the source's \<^verbatim>\<open>.length\<close>; a \<^verbatim>\<open>Buffer\<close> is a list of
  bytes.
\<close>

type_synonym jstring = "16 word list"

type_synonym bytes = "8 word list"

definition lit :: "string \<Rightarrow> jstring" where
  "lit s = map (\<lambda>c. of_char c) s"

text \<open>A thrown value, as the \<^verbatim>\<open>catch\<close> block of \<^verbatim>\<open>POST\<close> reads it: \<^verbatim>\<open>error?.message\<close>.\<close>

datatype js_error = Thrown (message: "jstring option")

text \<open>
  A number of the language: a finite value, or one of the values a JSON document cannot
  hold. \<^verbatim>\<open>JSON.parse\<close> returns an infinity for a literal that overflows, such as \<^verbatim>\<open>1e999\<close>,
  and the negative zero for \<^verbatim>\<open>-0\<close>.
\<close>

datatype js_number = Finite real | NegZero | PosInfinity | NegInfinity | NaN

text \<open>A value as \<^verbatim>\<open>JSON.parse\<close> builds it; an object lists its properties in order.\<close>

datatype json =
    JNull
  | JBool bool
  | JNumber js_number
  | JString jstring
  | JArray "json list"
  | JObject "(jstring \<times> json) list"

record File =
  file_type :: jstring
  file_name :: jstring
  file_bytes :: bytes

text \<open>
  \<^verbatim>\<open>FormData.get\<close> yields a string, a \<^verbatim>\<open>File\<close> or \<^verbatim>\<open>null\<close>. The form field
  \<^verbatim>\<open>file\<close> is \<open>upload\<close> here.
\<close>

datatype form_value = FormString jstring | FormFile File

record form_data =
  tool :: "form_value option"
  upload :: "form_value option"

text \<open>The request is what \<^verbatim>\<open>await req.formData()\<close> gives: the fields, or a rejection.\<close>

type_synonym request = "js_error + form_data"

datatype part = TextPart jstring | InlineData (mimeType: jstring) (data: jstring)

datatype content = Content (role: jstring) (parts: "part list")

record response =
  status :: nat
  body :: json

text \<open>
  What the handler takes from outside the repository: the PDF library (dynamic import,
  constructor and \<^verbatim>\<open>getText\<close>, any of which may throw), \<^verbatim>\<open>Buffer.toString\<close> in its two
  encodings, \<^verbatim>\<open>String.prototype.toLowerCase\<close>, the environment variable, the model
  endpoint (\<^verbatim>\<open>response.text\<close>, possibly undefined, or a throw) and \<^verbatim>\<open>JSON.parse\<close>. The
  text of the constant \<^verbatim>\<open>SYSTEM_PROMPT\<close> plays no part in any property below and is a
  parameter as well.
\<close>

record platform =
  pdf_getText :: "bytes \<Rightarrow> js_error + jstring"
  utf8_toString :: "bytes \<Rightarrow> jstring"
  base64_toString :: "bytes \<Rightarrow> jstring"
  toLowerCase :: "jstring \<Rightarrow> jstring"
  GEMINI_API_KEY :: "jstring option"
  generateContent :: "content list \<Rightarrow> js_error + jstring option"
  JSON_parse :: "jstring \<Rightarrow> js_error + json"
  SYSTEM_PROMPT :: jstring

text \<open>
  The external calls that are recorded: the attempt to extract text with the PDF library
  (made once the PDF branch is entered, also when the library cannot be loaded), the
  UTF-8 decoding of the buffer, and the request to the model with its contents.
\<close>

datatype event =
    PdfGetText bytes
  | Utf8Decode bytes
  | GenerateContent "content list"

type_synonym 'a io = "(js_error + 'a) \<times> event list"

section \<open>String operations of the language\<close>

definition string_slice :: "jstring \<Rightarrow> int \<Rightarrow> int \<Rightarrow> jstring" where
  "string_slice s start end =
     (let len = int (length s);
          from = (if start < 0 then max (len + start) 0 else min start len);
          to = (if end < 0 then max (len + end) 0 else min end len)
      in take (nat (max (to - from) 0)) (drop (nat from) s))"

definition endsWith :: "jstring \<Rightarrow> jstring \<Rightarrow> bool" where
  "endsWith s search =
     (length search \<le> length s \<and> drop (length s - length search) s = search)"

definition isWhiteSpace :: "16 word \<Rightarrow> bool" where
  "isWhiteSpace c =
     (c = 0x9 \<or> c = 0xA \<or> c = 0xB \<or> c = 0xC \<or> c = 0xD \<or> c = 0x20 \<or> c = 0xA0
      \<or> c = 0x1680 \<or> (0x2000 \<le> c \<and> c \<le> 0x200A) \<or> c = 0x2028 \<or> c = 0x2029
      \<or> c = 0x202F \<or> c = 0x205F \<or> c = 0x3000 \<or> c = 0xFEFF)"

definition trim :: "jstring \<Rightarrow> jstring" where
  "trim s = rev (dropWhile isWhiteSpace (rev (dropWhile isWhiteSpace s)))"

section \<open>Constants and messages\<close>

definition MAX_CHARS :: int where
  "MAX_CHARS = 40000"

definition MAX_FILE_BYTES :: nat where
  "MAX_FILE_BYTES = 20 * 1024 * 1024"

text \<open>The \<^verbatim>\<open>required\<close> list of \<^verbatim>\<open>EARNINGS_SUMMARY_SCHEMA\<close>.\<close>

definition required :: "jstring list" where
  "required =
     [lit ''tone'', lit ''confidence'', lit ''tone_rationale'', lit ''key_positives'',
      lit ''key_concerns'', lit ''forward_guidance'', lit ''capacity_utilization'',
      lit ''growth_initiatives'']"

definition too_large_error :: js_error where
  "too_large_error = Thrown (Some (lit
     ''File is too large for this demo environment. Please keep files under ~20 MB.''))"

definition config_missing_error :: js_error where
  "config_missing_error = Thrown (Some (lit
     ''GEMINI_API_KEY is not configured. Please set it in your environment.''))"

definition no_text_error :: js_error where
  "no_text_error = Thrown (Some (lit ''No text returned from Gemini model.''))"

definition unsupported_tool_message :: jstring where
  "unsupported_tool_message =
     lit ''Unsupported tool. Only 'earnings_summary' is implemented.''"

definition no_file_message :: jstring where
  "no_file_message = lit ''No file provided. Please attach a document.''"

definition unexpected_message :: jstring where
  "unexpected_message =
     lit ''Unexpected error while processing the document. Please try again.''"

definition scanned_prompt :: jstring where
  "scanned_prompt = lit
     ''Please analyze the attached PDF document. It appears to be a scanned transcript.''"

definition pdf_mime :: jstring where
  "pdf_mime = lit ''application/pdf''"

text \<open>The template literal around the truncated transcript.\<close>

definition userPrompt :: "jstring \<Rightarrow> jstring" where
  "userPrompt trimmedText =
     [0x0A] @ lit ''Transcript text (may be truncated for length):''
     @ [0x0A, 0x0A, 0x22, 0x22, 0x22] @ trimmedText @ [0x22, 0x22, 0x22, 0x0A]"

definition error_body :: "jstring \<Rightarrow> json" where
  "error_body m = JObject [(lit ''error'', JString m)]"

section \<open>The handler and its helpers\<close>

text \<open>
  \<^verbatim>\<open>NextResponse.json(data, { status })\<close> sends \<^verbatim>\<open>JSON.stringify(data)\<close> as the body. The body
  is represented by the value that text denotes: \<^verbatim>\<open>JSON.stringify\<close> writes a non-finite
  number as \<^verbatim>\<open>null\<close> and the negative zero as \<^verbatim>\<open>0\<close>, and everything else as it is.
\<close>

primrec JSON_stringify :: "json \<Rightarrow> json" where
  "JSON_stringify JNull = JNull"
| "JSON_stringify (JBool b) = JBool b"
| "JSON_stringify (JNumber n) =
     (case n of Finite x \<Rightarrow> JNumber (Finite x) | NegZero \<Rightarrow> JNumber (Finite 0) | _ \<Rightarrow> JNull)"
| "JSON_stringify (JString s) = JString s"
| "JSON_stringify (JArray xs) = JArray (map JSON_stringify xs)"
| "JSON_stringify (JObject kvs) = JObject (map (map_prod id JSON_stringify) kvs)"

definition NextResponse_json :: "json \<Rightarrow> nat \<Rightarrow> response" where
  "NextResponse_json v st = \<lparr>status = st, body = JSON_stringify v\<rparr>"

text \<open>
  The test \<^verbatim>\<open>file.type === "application/pdf" || file.name.toLowerCase().endsWith(".pdf")\<close>,
  written out twice in the source (in \<^verbatim>\<open>extractTextFromFile\<close> and in \<^verbatim>\<open>POST\<close>).
\<close>

definition isPdf :: "platform \<Rightarrow> File \<Rightarrow> bool" where
  "isPdf P f =
     (file_type f = pdf_mime \<or> endsWith (toLowerCase P (file_name f)) (lit ''.pdf''))"

definition extractTextFromFile :: "platform \<Rightarrow> File \<Rightarrow> (jstring \<times> bytes) io" where
  "extractTextFromFile P f =
     (if length (file_bytes f) > MAX_FILE_BYTES then (Inl too_large_error, [])
      else
        let buffer = file_bytes f in
        if isPdf P f then
          (case pdf_getText P buffer of
             Inr text \<Rightarrow> (Inr (text, buffer), [PdfGetText buffer])
           | Inl e \<Rightarrow> (Inr ([], buffer), [PdfGetText buffer]))
        else (Inr (utf8_toString P buffer, buffer), [Utf8Decode buffer]))"

definition summarizeEarningsCall :: "platform \<Rightarrow> jstring \<Rightarrow> part option \<Rightarrow> json io" where
  "summarizeEarningsCall P promptContext imgData =
     (if GEMINI_API_KEY P = None \<or> GEMINI_API_KEY P = Some [] then (Inl config_missing_error, [])
      else
        let contents =
              [Content (lit ''user'') [TextPart (SYSTEM_PROMPT P @ [0x0A, 0x0A] @ promptContext)]]
              @ (case imgData of None \<Rightarrow> [] | Some d \<Rightarrow> [Content (lit ''user'') [d]])
        in
        (case generateContent P contents of
           Inl e \<Rightarrow> (Inl e, [GenerateContent contents])
         | Inr None \<Rightarrow> (Inl no_text_error, [GenerateContent contents])
         | Inr (Some jsonText) \<Rightarrow>
             if jsonText = [] then (Inl no_text_error, [GenerateContent contents])
             else
               (case JSON_parse P jsonText of
                  Inl e \<Rightarrow> (Inl e, [GenerateContent contents])
                | Inr json \<Rightarrow> (Inr json, [GenerateContent contents]))))"

text \<open>The body of the \<^verbatim>\<open>try\<close> block: a response that was returned, or a thrown value.\<close>

definition POST_try :: "platform \<Rightarrow> request \<Rightarrow> response io" where
  "POST_try P req =
     (case req of
        Inl e \<Rightarrow> (Inl e, [])
      | Inr formData \<Rightarrow>
          if tool formData \<noteq> Some (FormString (lit ''earnings_summary''))
          then (Inr (NextResponse_json (error_body unsupported_tool_message) 400), [])
          else
            (case upload formData of
               Some (FormFile f) \<Rightarrow>
                 (case extractTextFromFile P f of
                    (Inl e, t) \<Rightarrow> (Inl e, t)
                  | (Inr (text, buffer), t) \<Rightarrow>
                      let isScanned = (isPdf P f \<and> (text = [] \<or> length (trim text) < 500)) in
                      if isScanned then
                        (let base64Data = base64_toString P buffer in
                         case summarizeEarningsCall P scanned_prompt
                                (Some (InlineData pdf_mime base64Data)) of
                           (Inl e, t') \<Rightarrow> (Inl e, t @ t')
                         | (Inr summary, t') \<Rightarrow> (Inr (NextResponse_json summary 200), t @ t'))
                      else
                        (let trimmedText = string_slice text 0 MAX_CHARS in
                         case summarizeEarningsCall P (userPrompt trimmedText) None of
                           (Inl e, t') \<Rightarrow> (Inl e, t @ t')
                         | (Inr summary, t') \<Rightarrow> (Inr (NextResponse_json summary 200), t @ t')))
             | _ \<Rightarrow> (Inr (NextResponse_json (error_body no_file_message) 400), [])))"

text \<open>The \<^verbatim>\<open>catch\<close> block: \<^verbatim>\<open>error?.message ?? "Unexpected error ..."\<close> with status 500.\<close>

definition catch_response :: "js_error \<Rightarrow> response" where
  "catch_response e =
     NextResponse_json
       (error_body (case message e of Some m \<Rightarrow> m | None \<Rightarrow> unexpected_message)) 500"

definition POST :: "platform \<Rightarrow> request \<Rightarrow> response \<times> event list" where
  "POST P req =
     (case POST_try P req of
        (Inr r, t) \<Rightarrow> (r, t)
      | (Inl e, t) \<Rightarrow> (catch_response e, t))"

section \<open>Requests, outcomes and an example platform\<close>

text \<open>A request that passes both input checks of \<^verbatim>\<open>POST\<close> and carries the file \<open>f\<close>.\<close>

definition analyze_request :: "File \<Rightarrow> request" where
  "analyze_request f =
     Inr \<lparr>tool = Some (FormString (lit ''earnings_summary'')), upload = Some (FormFile f)\<rparr>"

text \<open>
  What \<^verbatim>\<open>POST\<close> makes of a call of \<^verbatim>\<open>summarizeEarningsCall\<close> after the external calls \<open>t\<close>:
  the summary with status 200, or the \<^verbatim>\<open>catch\<close> block's response.
\<close>

definition deliver :: "event list \<Rightarrow> json io \<Rightarrow> response \<times> event list" where
  "deliver t r =
     (case r of
        (Inr summary, t') \<Rightarrow> (NextResponse_json summary 200, t @ t')
      | (Inl e, t') \<Rightarrow> (catch_response e, t @ t'))"

text \<open>The text that \<^verbatim>\<open>extractTextFromFile\<close> hands back for a file within the size limit.\<close>

definition extracted_text :: "platform \<Rightarrow> File \<Rightarrow> jstring" where
  "extracted_text P f =
     (if isPdf P f then (case pdf_getText P (file_bytes f) of Inr text \<Rightarrow> text | Inl e \<Rightarrow> [])
      else utf8_toString P (file_bytes f))"

text \<open>
  An example platform for concrete runs: a PDF library that rejects every document, an
  ASCII decoder and lower-casing, standard base64, a configured key, and a model that
  always answers with the single-key payload.
\<close>

definition base64_digit :: "nat \<Rightarrow> 16 word" where
  "base64_digit i =
     lit ''ABCDEFGHIJKLMNOPQRSTUVWXYZabcdefghijklmnopqrstuvwxyz0123456789+/'' ! i"

fun base64 :: "bytes \<Rightarrow> jstring" where
  "base64 (a # b # c # rest) =
     (let n = unat a * 65536 + unat b * 256 + unat c
      in [base64_digit (n div 262144), base64_digit (n div 4096 mod 64),
          base64_digit (n div 64 mod 64), base64_digit (n mod 64)] @ base64 rest)"
| "base64 [a, b] =
     (let n = unat a * 1024 + unat b * 4
      in [base64_digit (n div 4096), base64_digit (n div 64 mod 64),
          base64_digit (n mod 64), 0x3D])"
| "base64 [a] =
     (let n = unat a * 16
      in [base64_digit (n div 64), base64_digit (n mod 64), 0x3D, 0x3D])"
| "base64 [] = []"

definition ascii_lower :: "16 word \<Rightarrow> 16 word" where
  "ascii_lower c = (if 0x41 \<le> c \<and> c \<le> 0x5A then c + 0x20 else c)"

definition tone_only_text :: jstring where
  \<open>tone_only_text = lit ''{"tone":"optimistic"}''\<close>

definition tone_only :: json where
  "tone_only = JObject [(lit ''tone'', JString (lit ''optimistic''))]"

definition example_platform :: platform where
  "example_platform =
     \<lparr>pdf_getText = (\<lambda>b. Inl (Thrown (Some (lit ''Invalid PDF structure'')))),
      utf8_toString = map ucast,
      base64_toString = base64,
      toLowerCase = map ascii_lower,
      GEMINI_API_KEY = Some (lit ''example-key''),
      generateContent = (\<lambda>contents. Inr (Some tone_only_text)),
      JSON_parse = (\<lambda>s. if s = tone_only_text then Inr tone_only
                         else Inl (Thrown (Some (lit ''Unexpected token in JSON'')))),
      SYSTEM_PROMPT = lit ''You are a buy-side equity research analyst assistant.''\<rparr>"

definition ascii_bytes :: "string \<Rightarrow> bytes" where
  "ascii_bytes s = map (\<lambda>c. of_char c) s"

definition example_txt :: File where
  "example_txt =
     \<lparr>file_type = lit ''text/plain'', file_name = lit ''call.txt'',
      file_bytes = ascii_bytes ''Revenue grew 12% and margins expanded.''\<rparr>"

definition example_oversize :: File where
  "example_oversize =
     \<lparr>file_type = lit ''text/plain'', file_name = lit ''big.txt'',
      file_bytes = replicate 20971521 0x20\<rparr>"

definition example_scan :: File where
  "example_scan =
     \<lparr>file_type = lit ''application/pdf'', file_name = lit ''q3-call.pdf'',
      file_bytes = ascii_bytes ''%PDF-1.7''\<rparr>"

definition example_misdeclared :: File where
  "example_misdeclared =
     \<lparr>file_type = lit ''text/plain'', file_name = lit ''Q3-Call.PDF'',
      file_bytes = ascii_bytes ''%PDF-1.4''\<rparr>"

definition example_notes :: File where
  "example_notes =
     \<lparr>file_type = lit ''text/markdown'', file_name = lit ''notes.md'',
      file_bytes = ascii_bytes ''Guidance withdrawn.''\<rparr>"

text \<open>A PDF library that extracts 600 blanks and one that extracts 500 letters.\<close>

definition blank_pages_platform :: platform where
  "blank_pages_platform = example_platform\<lparr>pdf_getText := (\<lambda>b. Inr (replicate 600 0x20))\<rparr>"

definition readable_pdf_platform :: platform where
  "readable_pdf_platform = example_platform\<lparr>pdf_getText := (\<lambda>b. Inr (replicate 500 0x61))\<rparr>"

definition example_octet :: File where
  "example_octet =
     \<lparr>file_type = lit ''application/octet-stream'', file_name = lit ''scan.pdf'',
      file_bytes = ascii_bytes ''%PDF-1.5''\<rparr>"

text \<open>Property lookup on a JSON value.\<close>

definition get_field :: "json \<Rightarrow> jstring \<Rightarrow> json option" where
  "get_field j k = (case j of JObject kvs \<Rightarrow> map_of kvs k | _ \<Rightarrow> None)"

text \<open>A request with another tool selector, and one with no file attached.\<close>

definition wrong_tool_request :: request where
  "wrong_tool_request =
     Inr \<lparr>tool = Some (FormString (lit ''financial_extraction'')),
          upload = Some (FormFile example_txt)\<rparr>"

definition no_file_request :: request where
  "no_file_request =
     Inr \<lparr>tool = Some (FormString (lit ''earnings_summary'')), upload = None\<rparr>"

text \<open>
  For an accepted upload within the size limit: the external call that extraction makes,
  and the contents that the handler submits to the model, written out with the list
  operations of the logic (\<open>take\<close> for the truncation).
\<close>

definition extraction_event :: "platform \<Rightarrow> File \<Rightarrow> event" where
  "extraction_event P f =
     (if isPdf P f then PdfGetText (file_bytes f) else Utf8Decode (file_bytes f))"

definition sent_contents :: "platform \<Rightarrow> File \<Rightarrow> content list" where
  "sent_contents P f =
     (if isPdf P f \<and> length (trim (extracted_text P f)) < 500
      then [Content (lit ''user'') [TextPart (SYSTEM_PROMPT P @ [0x0A, 0x0A] @ scanned_prompt)],
            Content (lit ''user'')
              [InlineData (lit ''application/pdf'') (base64_toString P (file_bytes f))]]
      else [Content (lit ''user'')
              [TextPart (SYSTEM_PROMPT P @ [0x0A, 0x0A]
                 @ userPrompt (take 40000 (extracted_text P f)))]])"

text \<open>Whether every number inside a value is finite and not the negative zero.\<close>

primrec plain_numbers :: "json \<Rightarrow> bool" where
  "plain_numbers JNull = True"
| "plain_numbers (JBool b) = True"
| "plain_numbers (JNumber n) = (case n of Finite x \<Rightarrow> True | _ \<Rightarrow> False)"
| "plain_numbers (JString s) = True"
| "plain_numbers (JArray xs) = list_all plain_numbers xs"
| "plain_numbers (JObject kvs) = list_all (pred_prod (\<lambda>k. True) plain_numbers) kvs"

definition example_long :: File where
  "example_long =
     \<lparr>file_type = lit ''text/plain'', file_name = lit ''long.txt'',
      file_bytes = replicate 40001 0x61\<rparr>"

text \<open>A failure response: a status and a JSON object with the single string field \<^verbatim>\<open>error\<close>.\<close>

definition failure :: "nat \<Rightarrow> jstring \<Rightarrow> response" where
  "failure st m = \<lparr>status = st, body = JObject [(lit ''error'', JString m)]\<rparr>"

text \<open>
  Platforms that fail in one place each: no credential, a model call that throws, a
  model that returns no text, and a model whose text does not parse.
\<close>

definition keyless_platform :: platform where
  "keyless_platform = example_platform\<lparr>GEMINI_API_KEY := None\<rparr>"

definition failing_model_platform :: platform where
  "failing_model_platform =
     example_platform\<lparr>generateContent :=
       (\<lambda>contents. Inl (Thrown (Some (lit ''503 Service Unavailable''))))\<rparr>"

definition silent_model_platform :: platform where
  "silent_model_platform = example_platform\<lparr>generateContent := (\<lambda>contents. Inr None)\<rparr>"

definition garbled_model_platform :: platform where
  "garbled_model_platform =
     example_platform\<lparr>generateContent := (\<lambda>contents. Inr (Some (lit ''Sorry, I cannot'')))\<rparr>"

text \<open>A model whose payload holds a number that overflows, as \<^verbatim>\<open>JSON.parse\<close> reads it.\<close>

definition overflow_text :: jstring where
  \<open>overflow_text = lit ''{"confidence":1e999}''\<close>

definition overflow_platform :: platform where
  "overflow_platform =
     example_platform
       \<lparr>generateContent := (\<lambda>contents. Inr (Some overflow_text)),
        JSON_parse := (\<lambda>s. if s = overflow_text
                            then Inr (JObject [(lit ''confidence'', JNumber PosInfinity)])
                            else Inl (Thrown (Some (lit ''Unexpected token in JSON''))))\<rparr>"

section \<open>Basic facts\<close>

lemma stringify_error_body [simp]: "JSON_stringify (error_body m) = error_body m"
  by (simp add: error_body_def)

lemma stringify_tone_only [simp]: "JSON_stringify tone_only = tone_only"
  by (simp add: tone_only_def)

lemma NextResponse_json_simp [simp]:
  "NextResponse_json v st = \<lparr>status = st, body = JSON_stringify v\<rparr>"
  by (simp add: NextResponse_json_def)

lemma catch_response_simp:
  "catch_response e =
     \<lparr>status = 500,
      body = error_body (case message e of Some m \<Rightarrow> m | None \<Rightarrow> unexpected_message)\<rparr>"
  by (simp add: catch_response_def)

lemma extract_too_large:
  "length (file_bytes f) > MAX_FILE_BYTES \<Longrightarrow> extractTextFromFile P f = (Inl too_large_error, [])"
  by (simp add: extractTextFromFile_def)

lemma extract_pdf:
  "\<not> length (file_bytes f) > MAX_FILE_BYTES \<Longrightarrow> isPdf P f \<Longrightarrow>
   extractTextFromFile P f =
     (Inr (case pdf_getText P (file_bytes f) of Inr text \<Rightarrow> text | Inl e \<Rightarrow> [], file_bytes f),
      [PdfGetText (file_bytes f)])"
  by (simp add: extractTextFromFile_def Let_def split: sum.splits)

lemma extract_plain:
  "\<not> length (file_bytes f) > MAX_FILE_BYTES \<Longrightarrow> \<not> isPdf P f \<Longrightarrow>
   extractTextFromFile P f =
     (Inr (utf8_toString P (file_bytes f), file_bytes f), [Utf8Decode (file_bytes f)])"
  by (simp add: extractTextFromFile_def Let_def)

lemma POST_after_extract:
  assumes "extractTextFromFile P f = (Inr (text, buffer), t)"
  shows "POST P (analyze_request f) =
     (if isPdf P f \<and> (text = [] \<or> length (trim text) < 500)
      then deliver t (summarizeEarningsCall P scanned_prompt
             (Some (InlineData pdf_mime (base64_toString P buffer))))
      else deliver t (summarizeEarningsCall P (userPrompt (string_slice text 0 MAX_CHARS)) None))"
proof (cases "isPdf P f \<and> (text = [] \<or> length (trim text) < 500)")
  case True
  obtain r t' where call: "summarizeEarningsCall P scanned_prompt
      (Some (InlineData pdf_mime (base64_toString P buffer))) = (r, t')"
    by (cases "summarizeEarningsCall P scanned_prompt
      (Some (InlineData pdf_mime (base64_toString P buffer)))")
  from True assms call show ?thesis
    by (cases r) (simp_all add: POST_def POST_try_def analyze_request_def deliver_def)
next
  case False
  obtain r t' where call: "summarizeEarningsCall P
      (userPrompt (string_slice text 0 MAX_CHARS)) None = (r, t')"
    by (cases "summarizeEarningsCall P (userPrompt (string_slice text 0 MAX_CHARS)) None")
  from False assms call show ?thesis
    by (cases r) (auto simp add: POST_def POST_try_def analyze_request_def deliver_def)
qed

lemma POST_extract_throws:
  assumes "extractTextFromFile P f = (Inl e, t)"
  shows "POST P (analyze_request f) = (catch_response e, t)"
  using assms by (simp add: POST_def POST_try_def analyze_request_def)

lemma trim_Nil: "trim [] = []"
  by (simp add: trim_def)

lemma length_trim: "length (trim s) \<le> length s"
proof -
  have "length (trim s) \<le> length (dropWhile isWhiteSpace s)"
    unfolding trim_def using length_dropWhile_le [of isWhiteSpace "rev (dropWhile isWhiteSpace s)"]
    by simp
  also have "\<dots> \<le> length s" by (rule length_dropWhile_le)
  finally show ?thesis .
qed

lemma trim_all_white: "\<forall>c \<in> set s. isWhiteSpace c \<Longrightarrow> trim s = []"
proof -
  assume "\<forall>c \<in> set s. isWhiteSpace c"
  then have a: "dropWhile isWhiteSpace s = []"
    by simp
  show ?thesis unfolding trim_def a by simp
qed

lemma string_slice_prefix: "0 \<le> n \<Longrightarrow> string_slice s 0 n = take (nat n) s"
  by (simp add: string_slice_def Let_def min_def max_def)

lemma summarize_no_key:
  "GEMINI_API_KEY P = None \<or> GEMINI_API_KEY P = Some [] \<Longrightarrow>
   summarizeEarningsCall P promptContext imgData = (Inl config_missing_error, [])"
  by (simp add: summarizeEarningsCall_def)

lemma summarize_events:
  "snd (summarizeEarningsCall P promptContext imgData) =
     (if GEMINI_API_KEY P = None \<or> GEMINI_API_KEY P = Some [] then []
      else [GenerateContent
              ([Content (lit ''user'') [TextPart (SYSTEM_PROMPT P @ [0x0A, 0x0A] @ promptContext)]]
               @ (case imgData of None \<Rightarrow> [] | Some d \<Rightarrow> [Content (lit ''user'') [d]]))])"
  by (simp add: summarizeEarningsCall_def Let_def split: sum.splits option.splits)

lemma summarize_success:
  assumes "summarizeEarningsCall P promptContext imgData = (Inr j, t)"
  shows "\<exists>contents jsonText. t = [GenerateContent contents]
     \<and> generateContent P contents = Inr (Some jsonText) \<and> JSON_parse P jsonText = Inr j"
  using assms
  by (auto simp add: summarizeEarningsCall_def Let_def
      split: if_splits sum.splits option.splits)

lemma snd_deliver: "snd (deliver t r) = t @ snd r"
  by (cases r) (simp add: deliver_def split: sum.splits)

lemma POST_rejected_response:
  assumes "\<forall>f. req \<noteq> analyze_request f"
  shows "(\<exists>e. req = Inl e \<and> fst (POST_try P req) = Inl e \<and> fst (POST P req) = catch_response e)
   \<or> (\<exists>fd. req = Inr fd
        \<and> (tool fd \<noteq> Some (FormString (lit ''earnings_summary''))
             \<or> (\<forall>f. upload fd \<noteq> Some (FormFile f)))
        \<and> (\<exists>m. fst (POST_try P req) = Inr \<lparr>status = 400, body = error_body m\<rparr>
               \<and> fst (POST P req) = \<lparr>status = 400, body = error_body m\<rparr>))"
proof (cases req)
  case (Inl e)
  then show ?thesis by (simp add: POST_def POST_try_def)
next
  case (Inr fd)
  show ?thesis
  proof (cases "tool fd = Some (FormString (lit ''earnings_summary''))")
    case False
    with Inr show ?thesis by (auto simp add: POST_def POST_try_def)
  next
    case True
    have nofile: "\<forall>f. upload fd \<noteq> Some (FormFile f)"
    proof (intro allI notI)
      fix f assume "upload fd = Some (FormFile f)"
      with True have "fd = \<lparr>tool = Some (FormString (lit ''earnings_summary'')),
          upload = Some (FormFile f)\<rparr>"
        by simp
      with Inr assms show False by (simp add: analyze_request_def)
    qed
    then have "fst (POST_try P req) = Inr \<lparr>status = 400, body = error_body no_file_message\<rparr>"
      using Inr True by (simp add: POST_try_def split: option.splits form_value.splits)
    moreover from this have "fst (POST P req) = \<lparr>status = 400, body = error_body no_file_message\<rparr>"
      by (cases "POST_try P req") (simp add: POST_def)
    ultimately show ?thesis using Inr nofile by blast
  qed
qed

lemma POST_rejected:
  "\<forall>f. req \<noteq> analyze_request f \<Longrightarrow> snd (POST P req) = []"
proof (cases req)
  case (Inl e)
  then show ?thesis by (simp add: POST_def POST_try_def)
next
  case (Inr fd)
  assume no: "\<forall>f. req \<noteq> analyze_request f"
  show ?thesis
  proof (cases "tool fd = Some (FormString (lit ''earnings_summary''))")
    case False
    with Inr show ?thesis by (simp add: POST_def POST_try_def)
  next
    case True
    have "\<forall>f. upload fd \<noteq> Some (FormFile f)"
    proof (intro allI notI)
      fix f assume "upload fd = Some (FormFile f)"
      with True have "fd = \<lparr>tool = Some (FormString (lit ''earnings_summary'')),
          upload = Some (FormFile f)\<rparr>"
        by simp
      with Inr no show False by (simp add: analyze_request_def)
    qed
    with Inr True show ?thesis
      by (simp add: POST_def POST_try_def split: option.splits form_value.splits)
  qed
qed

lemma POST_analyze_cases:
  "(\<exists>e t. fst (POST_try P (analyze_request f)) = Inl e
        \<and> POST P (analyze_request f) = (catch_response e, t))
   \<or> (\<exists>s t. fst (POST_try P (analyze_request f)) = Inr \<lparr>status = 200, body = s\<rparr>
        \<and> POST P (analyze_request f) = (\<lparr>status = 200, body = s\<rparr>, t))"
proof -
  obtain r t where ex: "extractTextFromFile P f = (r, t)"
    by (cases "extractTextFromFile P f")
  show ?thesis
  proof (cases r)
    case (Inl e)
    with ex show ?thesis
      by (simp add: POST_def POST_try_def analyze_request_def)
  next
    case (Inr p)
    obtain tx buffer where p: "p = (tx, buffer)" by (cases p)
    show ?thesis
    proof (cases "isPdf P f \<and> (tx = [] \<or> length (trim tx) < 500)")
      case True
      obtain r' t' where call: "summarizeEarningsCall P scanned_prompt
          (Some (InlineData pdf_mime (base64_toString P buffer))) = (r', t')"
        by (cases "summarizeEarningsCall P scanned_prompt
          (Some (InlineData pdf_mime (base64_toString P buffer)))")
      from True ex Inr p call show ?thesis
        by (cases r') (simp_all add: POST_def POST_try_def analyze_request_def)
    next
      case False
      obtain r' t' where call: "summarizeEarningsCall P
          (userPrompt (string_slice tx 0 MAX_CHARS)) None = (r', t')"
        by (cases "summarizeEarningsCall P (userPrompt (string_slice tx 0 MAX_CHARS)) None")
      from False ex Inr p call show ?thesis
        by (cases r') (auto simp add: POST_def POST_try_def analyze_request_def)
    qed
  qed
qed

lemma trim_unchanged:
  assumes "s \<noteq> []" and "\<not> isWhiteSpace (hd s)" and "\<not> isWhiteSpace (last s)"
  shows "trim s = s"
proof -
  from assms have front: "dropWhile isWhiteSpace s = s"
    by (simp add: dropWhile_eq_self_iff)
  from assms have "dropWhile isWhiteSpace (rev s) = rev s"
    by (simp add: dropWhile_eq_self_iff hd_rev)
  with front show ?thesis
    by (simp add: trim_def)
qed

lemma example_platform_key:
  "GEMINI_API_KEY example_platform \<noteq> None \<and> GEMINI_API_KEY example_platform \<noteq> Some []"
  by (simp add: example_platform_def lit_def)

lemma example_summarize:
  "summarizeEarningsCall example_platform promptContext imgData =
     (Inr tone_only,
      [GenerateContent
         ([Content (lit ''user'')
             [TextPart (SYSTEM_PROMPT example_platform @ [0x0A, 0x0A] @ promptContext)]]
          @ (case imgData of None \<Rightarrow> [] | Some d \<Rightarrow> [Content (lit ''user'') [d]]))])"
proof -
  have "tone_only_text \<noteq> []" and "lit ''example-key'' \<noteq> []"
    by (simp_all add: tone_only_text_def lit_def)
  then show ?thesis
    by (simp add: summarizeEarningsCall_def example_platform_def Let_def)
qed

lemma extract_accepted:
  assumes "length (file_bytes f) \<le> MAX_FILE_BYTES"
  shows "extractTextFromFile P f =
     (Inr (extracted_text P f, file_bytes f), [extraction_event P f])"
  using assms
  by (cases "isPdf P f")
    (simp_all add: extract_pdf extract_plain extracted_text_def extraction_event_def)

lemma summarize_with_key:
  assumes "GEMINI_API_KEY P \<noteq> None" and "GEMINI_API_KEY P \<noteq> Some []"
  shows "summarizeEarningsCall P promptContext imgData =
     (case generateContent P
             ([Content (lit ''user'') [TextPart (SYSTEM_PROMPT P @ [0x0A, 0x0A] @ promptContext)]]
              @ (case imgData of None \<Rightarrow> [] | Some d \<Rightarrow> [Content (lit ''user'') [d]])) of
        Inl e \<Rightarrow> Inl e
      | Inr None \<Rightarrow> Inl no_text_error
      | Inr (Some jsonText) \<Rightarrow>
          if jsonText = [] then Inl no_text_error else JSON_parse P jsonText,
      [GenerateContent
         ([Content (lit ''user'') [TextPart (SYSTEM_PROMPT P @ [0x0A, 0x0A] @ promptContext)]]
          @ (case imgData of None \<Rightarrow> [] | Some d \<Rightarrow> [Content (lit ''user'') [d]]))])"
  using assms
  by (simp add: summarizeEarningsCall_def Let_def split: sum.splits option.splits)

lemma POST_accepted:
  assumes "length (file_bytes f) \<le> MAX_FILE_BYTES"
    and "GEMINI_API_KEY P \<noteq> None" and "GEMINI_API_KEY P \<noteq> Some []"
  shows "POST P (analyze_request f) =
     (case generateContent P (sent_contents P f) of
        Inl e \<Rightarrow> catch_response e
      | Inr None \<Rightarrow> catch_response no_text_error
      | Inr (Some jsonText) \<Rightarrow>
          if jsonText = [] then catch_response no_text_error
          else (case JSON_parse P jsonText of
                  Inl e \<Rightarrow> catch_response e
                | Inr j \<Rightarrow> \<lparr>status = 200, body = JSON_stringify j\<rparr>),
      [extraction_event P f, GenerateContent (sent_contents P f)])"
proof -
  note ex = extract_accepted [OF assms(1), of P]
  define outcome where "outcome =
    (case generateContent P (sent_contents P f) of
       Inl e \<Rightarrow> Inl e
     | Inr None \<Rightarrow> Inl no_text_error
     | Inr (Some jsonText) \<Rightarrow> if jsonText = [] then Inl no_text_error else JSON_parse P jsonText)"
  have empty: "extracted_text P f = [] \<Longrightarrow> length (trim (extracted_text P f)) < 500"
    by (simp add: trim_Nil)
  have "POST P (analyze_request f) =
      deliver [extraction_event P f] (outcome, [GenerateContent (sent_contents P f)])"
  proof (cases "isPdf P f \<and> length (trim (extracted_text P f)) < 500")
    case True
    then have "summarizeEarningsCall P scanned_prompt
        (Some (InlineData pdf_mime (base64_toString P (file_bytes f)))) =
        (outcome, [GenerateContent (sent_contents P f)])"
      by (simp add: summarize_with_key [OF assms(2,3)] sent_contents_def outcome_def pdf_mime_def)
    with True POST_after_extract [OF ex] show ?thesis
      by simp
  next
    case False
    then have "summarizeEarningsCall P
        (userPrompt (string_slice (extracted_text P f) 0 MAX_CHARS)) None =
        (outcome, [GenerateContent (sent_contents P f)])"
      by (simp add: summarize_with_key [OF assms(2,3)] sent_contents_def outcome_def
          string_slice_prefix MAX_CHARS_def)
    with False empty POST_after_extract [OF ex] show ?thesis
      by auto
  qed
  also have "\<dots> =
     (case generateContent P (sent_contents P f) of
        Inl e \<Rightarrow> catch_response e
      | Inr None \<Rightarrow> catch_response no_text_error
      | Inr (Some jsonText) \<Rightarrow>
          if jsonText = [] then catch_response no_text_error
          else (case JSON_parse P jsonText of
                  Inl e \<Rightarrow> catch_response e
                | Inr j \<Rightarrow> \<lparr>status = 200, body = JSON_stringify j\<rparr>),
      [extraction_event P f, GenerateContent (sent_contents P f)])"
  proof (cases "generateContent P (sent_contents P f)")
    case (Inl e)
    then show ?thesis by (simp add: outcome_def deliver_def)
  next
    case (Inr answer)
    show ?thesis
    proof (cases answer)
      case None
      with Inr show ?thesis by (simp add: outcome_def deliver_def)
    next
      case (Some jsonText)
      with Inr show ?thesis
        by (cases "JSON_parse P jsonText") (simp_all add: outcome_def deliver_def)
    qed
  qed
  finally show ?thesis .
qed

lemma stringify_plain: "plain_numbers j \<Longrightarrow> JSON_stringify j = j"
proof (induction j)
  case (JNumber n)
  then show ?case by (cases n) simp_all
next
  case (JArray xs)
  then show ?case by (simp add: list_all_iff map_idI)
next
  case (JObject kvs)
  have "map (map_prod id JSON_stringify) kvs = kvs"
  proof (rule map_idI)
    fix p assume p: "p \<in> set kvs"
    obtain k v where kv: "p = (k, v)" by (cases p)
    with p JObject.prems have "plain_numbers v"
      by (auto simp add: list_all_iff)
    moreover from p kv have "v \<in> Basic_BNFs.snds p" "p \<in> set kvs"
      by simp_all
    ultimately have "JSON_stringify v = v"
      using JObject.IH by blast
    with kv show "map_prod id JSON_stringify p = p" by simp
  qed
  then show ?case by simp
qed simp_all

lemma get_field_stringify:
  "get_field (JSON_stringify j) k = map_option JSON_stringify (get_field j k)"
proof (cases j)
  case (JObject kvs)
  have "map_of (map (map_prod id JSON_stringify) kvs) k = map_option JSON_stringify (map_of kvs k)"
    by (induction kvs) auto
  with JObject show ?thesis by (simp add: get_field_def)
next
  case (JNumber n)
  then show ?thesis by (cases n) (simp_all add: get_field_def)
qed (simp_all add: get_field_def)

lemma POST_status_cases:
  "(status (fst (POST P req)) = 400 \<longleftrightarrow>
      (\<exists>fd. req = Inr fd
         \<and> (tool fd \<noteq> Some (FormString (lit ''earnings_summary''))
              \<or> (\<forall>f. upload fd \<noteq> Some (FormFile f)))))
   \<and> (status (fst (POST P req)) = 500 \<longleftrightarrow> (\<exists>e. fst (POST_try P req) = Inl e))
   \<and> status (fst (POST P req)) \<in> {200, 400, 500}
   \<and> (status (fst (POST P req)) \<noteq> 200 \<longrightarrow>
        (\<exists>m. body (fst (POST P req)) = JObject [(lit ''error'', JString m)]))"
proof -
  have caught: "\<exists>m. body (catch_response e) = JObject [(lit ''error'', JString m)]" for e
    by (simp add: catch_response_simp error_body_def)
  show ?thesis
  proof (cases "\<exists>g. req = analyze_request g")
    case True
    then obtain g where req: "req = analyze_request g" ..
    have valid: "\<not> (\<exists>fd. req = Inr fd
         \<and> (tool fd \<noteq> Some (FormString (lit ''earnings_summary''))
              \<or> (\<forall>f. upload fd \<noteq> Some (FormFile f))))"
      by (auto simp add: req analyze_request_def)
    from POST_analyze_cases [of P g] show ?thesis
    proof
      assume "\<exists>e t. fst (POST_try P (analyze_request g)) = Inl e
          \<and> POST P (analyze_request g) = (catch_response e, t)"
      then obtain e t where "fst (POST_try P req) = Inl e"
        and "POST P req = (catch_response e, t)"
        using req by auto
      with valid caught [of e] show ?thesis
        by (simp add: catch_response_simp)
    next
      assume "\<exists>s t. fst (POST_try P (analyze_request g)) = Inr \<lparr>status = 200, body = s\<rparr>
          \<and> POST P (analyze_request g) = (\<lparr>status = 200, body = s\<rparr>, t)"
      then obtain s t where "fst (POST_try P req) = Inr \<lparr>status = 200, body = s\<rparr>"
        and "POST P req = (\<lparr>status = 200, body = s\<rparr>, t)"
        using req by auto
      with valid show ?thesis
        by simp
    qed
  next
    case False
    then have "\<forall>g. req \<noteq> analyze_request g" by simp
    from POST_rejected_response [OF this, of P] show ?thesis
    proof
      assume "\<exists>e. req = Inl e \<and> fst (POST_try P req) = Inl e
          \<and> fst (POST P req) = catch_response e"
      then obtain e where "req = Inl e" and "fst (POST_try P req) = Inl e"
        and "fst (POST P req) = catch_response e"
        by auto
      with caught [of e] show ?thesis
        by (simp add: catch_response_simp)
    next
      assume "\<exists>fd. req = Inr fd
        \<and> (tool fd \<noteq> Some (FormString (lit ''earnings_summary''))
             \<or> (\<forall>f. upload fd \<noteq> Some (FormFile f)))
        \<and> (\<exists>m. fst (POST_try P req) = Inr \<lparr>status = 400, body = error_body m\<rparr>
               \<and> fst (POST P req) = \<lparr>status = 400, body = error_body m\<rparr>)"
      then obtain fd m where "req = Inr fd"
        and "tool fd \<noteq> Some (FormString (lit ''earnings_summary''))
             \<or> (\<forall>f. upload fd \<noteq> Some (FormFile f))"
        and "fst (POST_try P req) = Inr \<lparr>status = 400, body = error_body m\<rparr>"
        and "fst (POST P req) = \<lparr>status = 400, body = error_body m\<rparr>"
        by auto
      then show ?thesis
        by (simp add: error_body_def)
    qed
  qed
qed

lemma catch_response_failure:
  "catch_response e =
     failure 500 (case message e of Some m \<Rightarrow> m | None \<Rightarrow> unexpected_message)"
  by (simp add: catch_response_simp failure_def error_body_def)

section \<open>Truncation of the transcript\<close>

text \<open>
  C7. The truncation applied on the text path, \<^verbatim>\<open>text.slice(0, MAX_CHARS)\<close>, returns a string
  of at most 40,000 code units unchanged, returns exactly the first 40,000 code units of
  a longer one, and applying it twice is the same as applying it once; and it is what the
  handler applies: for every accepted upload within the size limit that takes the text
  path (credential configured), the transcript that the model receives inside the prompt
  is the extracted text itself when that has at most 40,000 code units and exactly its
  first 40,000 code units otherwise.
\<close>

theorem truncation_prefix_idempotent:
  "(length s \<le> 40000 \<longrightarrow> string_slice s 0 MAX_CHARS = s)
   \<and> (length s > 40000 \<longrightarrow>
        string_slice s 0 MAX_CHARS = take 40000 s \<and> length (string_slice s 0 MAX_CHARS) = 40000)
   \<and> string_slice (string_slice s 0 MAX_CHARS) 0 MAX_CHARS = string_slice s 0 MAX_CHARS
   \<and> (length (file_bytes f) \<le> MAX_FILE_BYTES
        \<and> GEMINI_API_KEY P \<noteq> None \<and> GEMINI_API_KEY P \<noteq> Some []
        \<and> \<not> (isPdf P f \<and> length (trim (extracted_text P f)) < 500)
      \<longrightarrow> snd (POST P (analyze_request f)) =
            [if isPdf P f then PdfGetText (file_bytes f) else Utf8Decode (file_bytes f),
             GenerateContent
               [Content (lit ''user'')
                  [TextPart (SYSTEM_PROMPT P @ [0x0A, 0x0A]
                     @ userPrompt
                         (if length (extracted_text P f) \<le> 40000 then extracted_text P f
                          else take 40000 (extracted_text P f)))]]])"
proof (intro conjI impI)
  assume h: "length (file_bytes f) \<le> MAX_FILE_BYTES
      \<and> GEMINI_API_KEY P \<noteq> None \<and> GEMINI_API_KEY P \<noteq> Some []
      \<and> \<not> (isPdf P f \<and> length (trim (extracted_text P f)) < 500)"
  then have "snd (POST P (analyze_request f)) =
      [extraction_event P f, GenerateContent (sent_contents P f)]"
    by (simp add: POST_accepted)
  with h show "snd (POST P (analyze_request f)) =
      [if isPdf P f then PdfGetText (file_bytes f) else Utf8Decode (file_bytes f),
       GenerateContent
         [Content (lit ''user'')
            [TextPart (SYSTEM_PROMPT P @ [0x0A, 0x0A]
               @ userPrompt
                   (if length (extracted_text P f) \<le> 40000 then extracted_text P f
                    else take 40000 (extracted_text P f)))]]]"
    by (auto simp add: extraction_event_def sent_contents_def)
qed (simp_all add: string_slice_prefix MAX_CHARS_def)

theorem truncation_prefix_idempotent_witness:
  "length (lit ''Revenue grew 12%'') \<le> 40000
   \<and> string_slice (lit ''Revenue grew 12%'') 0 MAX_CHARS = lit ''Revenue grew 12%''
   \<and> length (replicate 40001 (0x61 :: 16 word)) > 40000
   \<and> string_slice (replicate 40001 0x61) 0 MAX_CHARS = replicate 40000 0x61
   \<and> string_slice (string_slice (replicate 40001 0x61) 0 MAX_CHARS) 0 MAX_CHARS
       = string_slice (replicate 40001 0x61) 0 MAX_CHARS
   \<and> length (file_bytes example_long) \<le> MAX_FILE_BYTES
   \<and> GEMINI_API_KEY example_platform = Some (lit ''example-key'')
   \<and> \<not> isPdf example_platform example_long
   \<and> extracted_text example_platform example_long = replicate 40001 0x61
   \<and> snd (POST example_platform (analyze_request example_long)) =
       [Utf8Decode (file_bytes example_long),
        GenerateContent
          [Content (lit ''user'')
             [TextPart (SYSTEM_PROMPT example_platform @ [0x0A, 0x0A]
                @ userPrompt (replicate 40000 0x61))]]]
   \<and> length (file_bytes example_txt) \<le> MAX_FILE_BYTES
   \<and> \<not> isPdf example_platform example_txt
   \<and> extracted_text example_platform example_txt = lit ''Revenue grew 12% and margins expanded.''
   \<and> snd (POST example_platform (analyze_request example_txt)) =
       [Utf8Decode (file_bytes example_txt),
        GenerateContent
          [Content (lit ''user'')
             [TextPart (SYSTEM_PROMPT example_platform @ [0x0A, 0x0A]
                @ userPrompt (lit ''Revenue grew 12% and margins expanded.''))]]]"
proof -
  let ?short = "lit ''Revenue grew 12%''"
  let ?long = "replicate 40001 (0x61 :: 16 word)"
  have short: "length ?short \<le> 40000"
    by (simp add: lit_def)
  have long: "length ?long > 40000"
    by simp
  have cut: "take 40000 ?long = replicate 40000 0x61"
    by (simp only: take_replicate) simp
  have a: "string_slice ?short 0 MAX_CHARS = ?short"
    using truncation_prefix_idempotent [of ?short] short by blast
  have b: "string_slice ?long 0 MAX_CHARS = replicate 40000 0x61"
    using truncation_prefix_idempotent [of ?long] long cut by simp
  have c: "string_slice (string_slice ?long 0 MAX_CHARS) 0 MAX_CHARS
      = string_slice ?long 0 MAX_CHARS"
    using truncation_prefix_idempotent [of ?long] by blast
  have key: "GEMINI_API_KEY example_platform = Some (lit ''example-key'')"
    by (simp add: example_platform_def)
  have small: "length (file_bytes example_long) \<le> MAX_FILE_BYTES"
    by (simp add: example_long_def MAX_FILE_BYTES_def)
  have plain: "\<not> isPdf example_platform example_long"
    by (simp add: isPdf_def example_long_def example_platform_def pdf_mime_def lit_def
        endsWith_def ascii_lower_def)
  have "(ucast (0x61 :: 8 word) :: 16 word) = 0x61"
    by simp
  then have decoded: "extracted_text example_platform example_long = ?long"
    using plain by (simp add: extracted_text_def example_platform_def example_long_def)
  have d: "snd (POST example_platform (analyze_request example_long)) =
       [Utf8Decode (file_bytes example_long),
        GenerateContent
          [Content (lit ''user'')
             [TextPart (SYSTEM_PROMPT example_platform @ [0x0A, 0x0A]
                @ userPrompt (replicate 40000 0x61))]]]"
    using truncation_prefix_idempotent [of _ example_long example_platform]
      small example_platform_key plain decoded cut
    by simp
  have small': "length (file_bytes example_txt) \<le> MAX_FILE_BYTES"
    by (simp add: example_txt_def ascii_bytes_def MAX_FILE_BYTES_def)
  have plain': "\<not> isPdf example_platform example_txt"
    by (simp add: isPdf_def example_txt_def example_platform_def pdf_mime_def lit_def
        endsWith_def ascii_lower_def)
  have decoded': "extracted_text example_platform example_txt =
      lit ''Revenue grew 12% and margins expanded.''"
    using plain'
    by (simp add: extracted_text_def example_platform_def example_txt_def ascii_bytes_def lit_def)
  have "length (lit ''Revenue grew 12% and margins expanded.'') \<le> 40000"
    by (simp add: lit_def)
  then have e: "snd (POST example_platform (analyze_request example_txt)) =
       [Utf8Decode (file_bytes example_txt),
        GenerateContent
          [Content (lit ''user'')
             [TextPart (SYSTEM_PROMPT example_platform @ [0x0A, 0x0A]
                @ userPrompt (lit ''Revenue grew 12% and margins expanded.''))]]]"
    using truncation_prefix_idempotent [of _ example_txt example_platform]
      small' example_platform_key plain' decoded'
    by simp
  from short a long b c small key plain decoded d small' plain' decoded' e show ?thesis
    by simp
qed

section \<open>The size limit\<close>

text \<open>
  C5. For every upload longer than the 20 MB limit \<^verbatim>\<open>MAX_FILE_BYTES\<close>,
  \<^verbatim>\<open>extractTextFromFile\<close> throws the too-large error before it touches the PDF library or
  the decoder, and the request ends with that error's response having made no external
  call at all: neither text extraction nor the model call.
\<close>

theorem oversize_rejected_before_any_call:
  assumes "length (file_bytes f) > MAX_FILE_BYTES"
  shows "extractTextFromFile P f = (Inl too_large_error, [])
     \<and> POST P (analyze_request f) = (catch_response too_large_error, [])"
  using assms by (simp add: extract_too_large POST_extract_throws)

theorem oversize_rejected_before_any_call_witness:
  "length (file_bytes example_oversize) > MAX_FILE_BYTES
   \<and> extractTextFromFile example_platform example_oversize = (Inl too_large_error, [])
   \<and> POST example_platform (analyze_request example_oversize) =
       (\<lparr>status = 500, body = error_body (lit
          ''File is too large for this demo environment. Please keep files under ~20 MB.'')\<rparr>,
        [])"
proof -
  have big: "length (file_bytes example_oversize) > MAX_FILE_BYTES"
    by (simp add: example_oversize_def MAX_FILE_BYTES_def)
  have "catch_response too_large_error = \<lparr>status = 500, body = error_body (lit
          ''File is too large for this demo environment. Please keep files under ~20 MB.'')\<rparr>"
    by (simp add: catch_response_def too_large_error_def)
  with oversize_rejected_before_any_call [OF big, of example_platform] big
  show ?thesis by simp
qed

section \<open>The credential check\<close>

text \<open>
  C9. Whenever the API credential \<^verbatim>\<open>GEMINI_API_KEY\<close> is absent from the environment
  (undefined or empty), \<^verbatim>\<open>summarizeEarningsCall\<close> throws the configuration error without
  having called the model, no request of any shape reaches the model, and a request that
  got as far as the model call ends with that error's response.
\<close>

theorem config_missing_before_network:
  assumes "GEMINI_API_KEY P = None \<or> GEMINI_API_KEY P = Some []"
  shows "summarizeEarningsCall P promptContext imgData = (Inl config_missing_error, [])
     \<and> (\<forall>contents. GenerateContent contents \<notin> set (snd (POST P req)))
     \<and> (length (file_bytes f) \<le> MAX_FILE_BYTES \<longrightarrow>
          fst (POST P (analyze_request f)) = catch_response config_missing_error)"
proof (intro conjI allI impI)
  show "summarizeEarningsCall P promptContext imgData = (Inl config_missing_error, [])"
    using assms by (rule summarize_no_key)
next
  fix contents
  show "GenerateContent contents \<notin> set (snd (POST P req))"
  proof (cases "\<exists>g. req = analyze_request g")
    case False
    then show ?thesis by (simp add: POST_rejected)
  next
    case True
    then obtain g where req: "req = analyze_request g" ..
    obtain r t where ex: "extractTextFromFile P g = (r, t)"
      by (cases "extractTextFromFile P g")
    have t: "GenerateContent contents \<notin> set t"
      using ex by (auto simp add: extractTextFromFile_def Let_def split: if_splits sum.splits)
    show ?thesis
    proof (cases r)
      case (Inl e)
      with ex req t show ?thesis by (simp add: POST_extract_throws)
    next
      case (Inr p)
      obtain tx buffer where "p = (tx, buffer)" by (cases p)
      with Inr ex have "extractTextFromFile P g = (Inr (tx, buffer), t)" by simp
      from POST_after_extract [OF this] req t assms show ?thesis
        by (simp add: snd_deliver summarize_no_key)
    qed
  qed
next
  assume "length (file_bytes f) \<le> MAX_FILE_BYTES"
  then obtain tx t where "extractTextFromFile P f = (Inr (tx, file_bytes f), t)"
    by (cases "isPdf P f") (simp_all add: extract_pdf extract_plain)
  from POST_after_extract [OF this] assms
  show "fst (POST P (analyze_request f)) = catch_response config_missing_error"
    by (simp add: summarize_no_key deliver_def)
qed

theorem config_missing_before_network_witness:
  "GEMINI_API_KEY (example_platform\<lparr>GEMINI_API_KEY := None\<rparr>) = None
   \<and> length (file_bytes example_notes) \<le> MAX_FILE_BYTES
   \<and> POST (example_platform\<lparr>GEMINI_API_KEY := None\<rparr>) (analyze_request example_notes) =
       (\<lparr>status = 500, body = error_body (lit
          ''GEMINI_API_KEY is not configured. Please set it in your environment.'')\<rparr>,
        [Utf8Decode (file_bytes example_notes)])"
proof -
  let ?P = "example_platform\<lparr>GEMINI_API_KEY := None\<rparr>"
  have key: "GEMINI_API_KEY ?P = None \<or> GEMINI_API_KEY ?P = Some []"
    by simp
  have small: "length (file_bytes example_notes) \<le> MAX_FILE_BYTES"
    by (simp add: example_notes_def ascii_bytes_def MAX_FILE_BYTES_def)
  have "fst (POST ?P (analyze_request example_notes)) = catch_response config_missing_error"
    using config_missing_before_network [OF key, of _ _ _ example_notes] small by blast
  moreover have "catch_response config_missing_error = \<lparr>status = 500, body = error_body (lit
          ''GEMINI_API_KEY is not configured. Please set it in your environment.'')\<rparr>"
    by (simp add: catch_response_def config_missing_error_def)
  moreover have "snd (POST ?P (analyze_request example_notes)) =
      [Utf8Decode (file_bytes example_notes)]"
  proof -
    have "\<not> isPdf ?P example_notes"
      by (simp add: isPdf_def example_notes_def example_platform_def pdf_mime_def lit_def
          endsWith_def ascii_lower_def)
    with small have "extractTextFromFile ?P example_notes =
        (Inr (utf8_toString ?P (file_bytes example_notes), file_bytes example_notes),
         [Utf8Decode (file_bytes example_notes)])"
      by (simp add: extract_plain)
    from POST_after_extract [OF this] show ?thesis
      by (simp add: snd_deliver summarize_events)
  qed
  ultimately show ?thesis
    using small by (simp add: prod_eq_iff)
qed

section \<open>Files that are not PDFs\<close>

text \<open>
  C6. For every uploaded file that the PDF test does not classify as a PDF, the only call
  the model can receive is the single text part of the text path, never an attachment;
  and when the file is within the size limit, the extracted text is the UTF-8 decoding of
  the uploaded bytes and the request continues on the text path with that text.
\<close>

theorem non_pdf_takes_text_path:
  assumes "\<not> isPdf P f"
  shows "(\<forall>contents. GenerateContent contents \<in> set (snd (POST P (analyze_request f))) \<longrightarrow>
            contents = [Content (lit ''user'') [TextPart (SYSTEM_PROMPT P @ [0x0A, 0x0A]
              @ userPrompt (string_slice (utf8_toString P (file_bytes f)) 0 MAX_CHARS))]])
     \<and> (length (file_bytes f) \<le> MAX_FILE_BYTES \<longrightarrow>
          extractTextFromFile P f =
            (Inr (utf8_toString P (file_bytes f), file_bytes f), [Utf8Decode (file_bytes f)])
          \<and> POST P (analyze_request f) =
              deliver [Utf8Decode (file_bytes f)]
                (summarizeEarningsCall P
                   (userPrompt (string_slice (utf8_toString P (file_bytes f)) 0 MAX_CHARS))
                   None))"
proof (cases "length (file_bytes f) \<le> MAX_FILE_BYTES")
  case False
  then have "POST P (analyze_request f) = (catch_response too_large_error, [])"
    by (simp add: extract_too_large POST_extract_throws)
  with False show ?thesis by simp
next
  case True
  with assms have ex: "extractTextFromFile P f =
      (Inr (utf8_toString P (file_bytes f), file_bytes f), [Utf8Decode (file_bytes f)])"
    by (simp add: extract_plain)
  from POST_after_extract [OF ex] assms
  have post: "POST P (analyze_request f) =
      deliver [Utf8Decode (file_bytes f)]
        (summarizeEarningsCall P
           (userPrompt (string_slice (utf8_toString P (file_bytes f)) 0 MAX_CHARS)) None)"
    by simp
  have "\<forall>contents. GenerateContent contents \<in> set (snd (POST P (analyze_request f))) \<longrightarrow>
      contents = [Content (lit ''user'') [TextPart (SYSTEM_PROMPT P @ [0x0A, 0x0A]
        @ userPrompt (string_slice (utf8_toString P (file_bytes f)) 0 MAX_CHARS))]]"
    unfolding post by (simp add: snd_deliver summarize_events)
  with ex post show ?thesis by simp
qed

theorem non_pdf_takes_text_path_witness:
  "\<not> isPdf example_platform example_txt
   \<and> length (file_bytes example_txt) \<le> MAX_FILE_BYTES
   \<and> extractTextFromFile example_platform example_txt =
       (Inr (utf8_toString example_platform (file_bytes example_txt), file_bytes example_txt),
        [Utf8Decode (file_bytes example_txt)])
   \<and> utf8_toString example_platform (file_bytes example_txt) =
       lit ''Revenue grew 12% and margins expanded.''
   \<and> POST example_platform (analyze_request example_txt) =
       (\<lparr>status = 200, body = tone_only\<rparr>,
        [Utf8Decode (file_bytes example_txt),
         GenerateContent [Content (lit ''user'') [TextPart (SYSTEM_PROMPT example_platform
           @ [0x0A, 0x0A] @ userPrompt (lit ''Revenue grew 12% and margins expanded.''))]]])"
proof -
  have plain: "\<not> isPdf example_platform example_txt"
    by (simp add: isPdf_def example_txt_def example_platform_def pdf_mime_def lit_def
        endsWith_def ascii_lower_def)
  have small: "length (file_bytes example_txt) \<le> MAX_FILE_BYTES"
    by (simp add: example_txt_def ascii_bytes_def MAX_FILE_BYTES_def)
  have decoded: "utf8_toString example_platform (file_bytes example_txt) =
      lit ''Revenue grew 12% and margins expanded.''"
    by (simp add: example_platform_def example_txt_def ascii_bytes_def lit_def)
  have short: "string_slice (lit ''Revenue grew 12% and margins expanded.'') 0 MAX_CHARS =
      lit ''Revenue grew 12% and margins expanded.''"
    by (simp add: string_slice_prefix MAX_CHARS_def lit_def)
  from non_pdf_takes_text_path [OF plain] small
  have "extractTextFromFile example_platform example_txt =
       (Inr (utf8_toString example_platform (file_bytes example_txt), file_bytes example_txt),
        [Utf8Decode (file_bytes example_txt)])"
    and "POST example_platform (analyze_request example_txt) =
      deliver [Utf8Decode (file_bytes example_txt)]
        (summarizeEarningsCall example_platform
           (userPrompt (string_slice (utf8_toString example_platform (file_bytes example_txt))
              0 MAX_CHARS)) None)"
    by blast+
  with plain small decoded short show ?thesis
    by (simp add: example_summarize deliver_def)
qed

section \<open>PDFs whose text extraction fails\<close>

text \<open>
  C8. For every file classified as a PDF and within the size limit, when the PDF library
  throws (or cannot be loaded), \<^verbatim>\<open>extractTextFromFile\<close> returns the empty text instead of
  throwing, and the request continues: the scanned-document test then takes the request
  to the model call that attaches the original bytes.
\<close>

theorem pdf_parse_failure_degrades:
  assumes "isPdf P f"
    and "length (file_bytes f) \<le> MAX_FILE_BYTES"
    and "pdf_getText P (file_bytes f) = Inl e"
  shows "extractTextFromFile P f = (Inr ([], file_bytes f), [PdfGetText (file_bytes f)])
     \<and> POST P (analyze_request f) =
         deliver [PdfGetText (file_bytes f)]
           (summarizeEarningsCall P scanned_prompt
              (Some (InlineData pdf_mime (base64_toString P (file_bytes f)))))"
proof -
  from assms have ex: "extractTextFromFile P f =
      (Inr ([], file_bytes f), [PdfGetText (file_bytes f)])"
    by (simp add: extract_pdf)
  from POST_after_extract [OF ex] assms(1) ex show ?thesis
    by simp
qed

theorem pdf_parse_failure_degrades_witness:
  "isPdf example_platform example_scan
   \<and> length (file_bytes example_scan) \<le> MAX_FILE_BYTES
   \<and> pdf_getText example_platform (file_bytes example_scan) =
       Inl (Thrown (Some (lit ''Invalid PDF structure'')))
   \<and> extractTextFromFile example_platform example_scan =
       (Inr ([], file_bytes example_scan), [PdfGetText (file_bytes example_scan)])
   \<and> POST example_platform (analyze_request example_scan) =
       (\<lparr>status = 200, body = tone_only\<rparr>,
        [PdfGetText (file_bytes example_scan),
         GenerateContent
           [Content (lit ''user'')
              [TextPart (SYSTEM_PROMPT example_platform @ [0x0A, 0x0A] @ scanned_prompt)],
            Content (lit ''user'')
              [InlineData pdf_mime (base64_toString example_platform (file_bytes example_scan))]]])"
proof -
  have pdf: "isPdf example_platform example_scan"
    by (simp add: isPdf_def example_scan_def pdf_mime_def)
  have small: "length (file_bytes example_scan) \<le> MAX_FILE_BYTES"
    by (simp add: example_scan_def ascii_bytes_def MAX_FILE_BYTES_def)
  have fails: "pdf_getText example_platform (file_bytes example_scan) =
      Inl (Thrown (Some (lit ''Invalid PDF structure'')))"
    by (simp add: example_platform_def)
  from pdf_parse_failure_degrades [OF pdf small fails] pdf small fails show ?thesis
    by (simp add: example_summarize deliver_def)
qed

section \<open>Classification by file name\<close>

text \<open>
  C10. Every uploaded file whose name, lower-cased, ends in \<^verbatim>\<open>.pdf\<close> is classified as a PDF
  whatever its declared MIME type, so its bytes are never decoded as UTF-8 text; and when
  the file is within the size limit, the credential is configured and PDF parsing fails
  or yields fewer than 500 characters, the model receives the original bytes (base64)
  labelled with the media type \<^verbatim>\<open>application/pdf\<close>, also when the declared type was another.
\<close>

theorem pdf_suffix_overrides_declared_type:
  assumes "endsWith (toLowerCase P (file_name f)) (lit ''.pdf'')"
  shows "isPdf P f
     \<and> (\<forall>b. Utf8Decode b \<notin> set (snd (POST P (analyze_request f))))
     \<and> (length (file_bytes f) \<le> MAX_FILE_BYTES
          \<and> GEMINI_API_KEY P \<noteq> None \<and> GEMINI_API_KEY P \<noteq> Some []
          \<and> ((\<exists>e. pdf_getText P (file_bytes f) = Inl e)
               \<or> (\<exists>t. pdf_getText P (file_bytes f) = Inr t \<and> length t < 500))
        \<longrightarrow> snd (POST P (analyze_request f)) =
              [PdfGetText (file_bytes f),
               GenerateContent
                 [Content (lit ''user'') [TextPart (SYSTEM_PROMPT P @ [0x0A, 0x0A] @ scanned_prompt)],
                  Content (lit ''user'')
                    [InlineData pdf_mime (base64_toString P (file_bytes f))]]])"
proof (intro conjI allI impI)
  show pdf: "isPdf P f"
    using assms by (simp add: isPdf_def)
  fix b
  show "Utf8Decode b \<notin> set (snd (POST P (analyze_request f)))"
  proof (cases "length (file_bytes f) \<le> MAX_FILE_BYTES")
    case False
    then show ?thesis
      by (simp add: extract_too_large POST_extract_throws)
  next
    case True
    with pdf obtain tx where ex: "extractTextFromFile P f =
        (Inr (tx, file_bytes f), [PdfGetText (file_bytes f)])"
      by (simp add: extract_pdf)
    from POST_after_extract [OF ex] show ?thesis
      by (simp add: snd_deliver summarize_events split: option.splits)
  qed
next
  have pdf: "isPdf P f"
    using assms by (simp add: isPdf_def)
  assume h: "length (file_bytes f) \<le> MAX_FILE_BYTES
      \<and> GEMINI_API_KEY P \<noteq> None \<and> GEMINI_API_KEY P \<noteq> Some []
      \<and> ((\<exists>e. pdf_getText P (file_bytes f) = Inl e)
           \<or> (\<exists>t. pdf_getText P (file_bytes f) = Inr t \<and> length t < 500))"
  define tx where "tx = (case pdf_getText P (file_bytes f) of Inr t \<Rightarrow> t | Inl e \<Rightarrow> [])"
  from h have "length tx < 500"
    by (auto simp add: tx_def)
  with length_trim [of tx] have scanned: "length (trim tx) < 500"
    by simp
  from h pdf have ex: "extractTextFromFile P f =
      (Inr (tx, file_bytes f), [PdfGetText (file_bytes f)])"
    by (simp add: extract_pdf tx_def)
  from POST_after_extract [OF ex] pdf scanned h
  show "snd (POST P (analyze_request f)) =
      [PdfGetText (file_bytes f),
       GenerateContent
         [Content (lit ''user'') [TextPart (SYSTEM_PROMPT P @ [0x0A, 0x0A] @ scanned_prompt)],
          Content (lit ''user'') [InlineData pdf_mime (base64_toString P (file_bytes f))]]]"
    by (simp add: snd_deliver summarize_events)
qed

theorem pdf_suffix_overrides_declared_type_witness:
  "endsWith (toLowerCase example_platform (file_name example_misdeclared)) (lit ''.pdf'')
   \<and> file_type example_misdeclared = lit ''text/plain''
   \<and> file_type example_misdeclared \<noteq> pdf_mime
   \<and> isPdf example_platform example_misdeclared
   \<and> length (file_bytes example_misdeclared) \<le> MAX_FILE_BYTES
   \<and> GEMINI_API_KEY example_platform = Some (lit ''example-key'')
   \<and> pdf_getText example_platform (file_bytes example_misdeclared) =
       Inl (Thrown (Some (lit ''Invalid PDF structure'')))
   \<and> snd (POST example_platform (analyze_request example_misdeclared)) =
       [PdfGetText (file_bytes example_misdeclared),
        GenerateContent
          [Content (lit ''user'')
             [TextPart (SYSTEM_PROMPT example_platform @ [0x0A, 0x0A] @ scanned_prompt)],
           Content (lit ''user'')
             [InlineData pdf_mime
                (base64_toString example_platform (file_bytes example_misdeclared))]]]"
proof -
  have suffix: "endsWith (toLowerCase example_platform (file_name example_misdeclared))
      (lit ''.pdf'')"
    by (simp add: example_misdeclared_def example_platform_def lit_def endsWith_def
        ascii_lower_def)
  have declared: "file_type example_misdeclared = lit ''text/plain''"
    and other: "file_type example_misdeclared \<noteq> pdf_mime"
    by (simp_all add: example_misdeclared_def pdf_mime_def lit_def)
  have small: "length (file_bytes example_misdeclared) \<le> MAX_FILE_BYTES"
    by (simp add: example_misdeclared_def ascii_bytes_def MAX_FILE_BYTES_def)
  have key: "GEMINI_API_KEY example_platform = Some (lit ''example-key'')"
    and nonempty: "lit ''example-key'' \<noteq> []"
    by (simp_all add: example_platform_def lit_def)
  have fails: "pdf_getText example_platform (file_bytes example_misdeclared) =
      Inl (Thrown (Some (lit ''Invalid PDF structure'')))"
    by (simp add: example_platform_def)
  from pdf_suffix_overrides_declared_type [OF suffix] small key nonempty fails
  have "isPdf example_platform example_misdeclared"
    and "snd (POST example_platform (analyze_request example_misdeclared)) =
       [PdfGetText (file_bytes example_misdeclared),
        GenerateContent
          [Content (lit ''user'')
             [TextPart (SYSTEM_PROMPT example_platform @ [0x0A, 0x0A] @ scanned_prompt)],
           Content (lit ''user'')
             [InlineData pdf_mime
                (base64_toString example_platform (file_bytes example_misdeclared))]]]"
    by simp_all
  with suffix declared other small key fails show ?thesis
    by simp
qed

section \<open>The scanned-document test\<close>

text \<open>
  C2, as the code has it. For every file classified as a PDF and within the size limit,
  the test is on the length of the extracted text after \<^verbatim>\<open>trim()\<close>: when the trimmed text
  has fewer than 500 code units (in particular whenever the extracted text itself has
  fewer than 500) the request takes the model call that attaches the base64 of the
  original bytes, and when the trimmed text has at least 500 it takes the text path with
  the extracted, untrimmed text.
\<close>

theorem pdf_scanned_test_on_trimmed_text:
  assumes "isPdf P f" and "length (file_bytes f) \<le> MAX_FILE_BYTES"
  shows "extractTextFromFile P f =
           (Inr (extracted_text P f, file_bytes f), [PdfGetText (file_bytes f)])
     \<and> (length (trim (extracted_text P f)) < 500 \<longrightarrow>
          POST P (analyze_request f) =
            deliver [PdfGetText (file_bytes f)]
              (summarizeEarningsCall P scanned_prompt
                 (Some (InlineData pdf_mime (base64_toString P (file_bytes f))))))
     \<and> (length (trim (extracted_text P f)) \<ge> 500 \<longrightarrow>
          POST P (analyze_request f) =
            deliver [PdfGetText (file_bytes f)]
              (summarizeEarningsCall P
                 (userPrompt (string_slice (extracted_text P f) 0 MAX_CHARS)) None))
     \<and> (length (extracted_text P f) < 500 \<longrightarrow> length (trim (extracted_text P f)) < 500)"
proof -
  from assms have ex: "extractTextFromFile P f =
      (Inr (extracted_text P f, file_bytes f), [PdfGetText (file_bytes f)])"
    by (simp add: extract_pdf extracted_text_def)
  have nonempty: "extracted_text P f \<noteq> []" if "length (trim (extracted_text P f)) \<ge> 500"
    using that by (auto simp add: trim_Nil)
  have shorter: "length (extracted_text P f) < 500 \<longrightarrow> length (trim (extracted_text P f)) < 500"
    using length_trim [of "extracted_text P f"] by simp
  from POST_after_extract [OF ex] assms(1) ex nonempty shorter show ?thesis
    by auto
qed

theorem pdf_scanned_test_on_trimmed_text_witness:
  "isPdf example_platform example_scan
   \<and> length (file_bytes example_scan) \<le> MAX_FILE_BYTES
   \<and> extracted_text example_platform example_scan = []
   \<and> snd (POST example_platform (analyze_request example_scan)) =
       [PdfGetText (file_bytes example_scan),
        GenerateContent
          [Content (lit ''user'')
             [TextPart (SYSTEM_PROMPT example_platform @ [0x0A, 0x0A] @ scanned_prompt)],
           Content (lit ''user'')
             [InlineData pdf_mime (base64_toString example_platform (file_bytes example_scan))]]]
   \<and> isPdf readable_pdf_platform example_scan
   \<and> extracted_text readable_pdf_platform example_scan = replicate 500 0x61
   \<and> length (trim (replicate 500 (0x61 :: 16 word))) = 500
   \<and> snd (POST readable_pdf_platform (analyze_request example_scan)) =
       [PdfGetText (file_bytes example_scan),
        GenerateContent
          [Content (lit ''user'')
             [TextPart (SYSTEM_PROMPT readable_pdf_platform @ [0x0A, 0x0A]
                @ userPrompt (replicate 500 0x61))]]]"
proof -
  have pdf: "isPdf example_platform example_scan" "isPdf readable_pdf_platform example_scan"
    by (simp_all add: isPdf_def example_scan_def pdf_mime_def)
  have small: "length (file_bytes example_scan) \<le> MAX_FILE_BYTES"
    by (simp add: example_scan_def ascii_bytes_def MAX_FILE_BYTES_def)
  have empty: "extracted_text example_platform example_scan = []"
    using pdf by (simp add: extracted_text_def example_platform_def)
  have letters: "extracted_text readable_pdf_platform example_scan = replicate 500 0x61"
    using pdf by (simp add: extracted_text_def readable_pdf_platform_def)
  have "(0x61 :: 16 word) # replicate 499 0x61 = replicate 500 0x61"
    by (simp only: replicate_Suc [symmetric]) simp
  then have "hd (replicate 500 (0x61 :: 16 word)) = 0x61"
    by (metis list.sel(1))
  moreover have "last (replicate 500 (0x61 :: 16 word)) = 0x61"
    by (simp add: last_replicate)
  moreover have "replicate 500 (0x61 :: 16 word) \<noteq> []"
    by simp
  ultimately have untrimmed: "trim (replicate 500 (0x61 :: 16 word)) = replicate 500 0x61"
    by (intro trim_unchanged) (simp_all add: isWhiteSpace_def)
  have whole: "string_slice (replicate 500 (0x61 :: 16 word)) 0 MAX_CHARS = replicate 500 0x61"
    by (simp add: string_slice_prefix MAX_CHARS_def)
  have key: "GEMINI_API_KEY readable_pdf_platform \<noteq> None
      \<and> GEMINI_API_KEY readable_pdf_platform \<noteq> Some []"
    using example_platform_key by (simp add: readable_pdf_platform_def)
  have "POST example_platform (analyze_request example_scan) =
      deliver [PdfGetText (file_bytes example_scan)]
        (summarizeEarningsCall example_platform scanned_prompt
           (Some (InlineData pdf_mime
              (base64_toString example_platform (file_bytes example_scan)))))"
    using pdf_scanned_test_on_trimmed_text [OF pdf(1) small] empty
    by (simp add: trim_Nil)
  then have binary: "snd (POST example_platform (analyze_request example_scan)) =
      [PdfGetText (file_bytes example_scan),
       GenerateContent
         [Content (lit ''user'')
            [TextPart (SYSTEM_PROMPT example_platform @ [0x0A, 0x0A] @ scanned_prompt)],
          Content (lit ''user'')
            [InlineData pdf_mime (base64_toString example_platform (file_bytes example_scan))]]]"
    using example_platform_key by (simp add: snd_deliver summarize_events)
  have "POST readable_pdf_platform (analyze_request example_scan) =
      deliver [PdfGetText (file_bytes example_scan)]
        (summarizeEarningsCall readable_pdf_platform
           (userPrompt (string_slice (extracted_text readable_pdf_platform example_scan)
              0 MAX_CHARS)) None)"
    using pdf_scanned_test_on_trimmed_text [OF pdf(2) small] letters untrimmed
    by simp
  then have textual: "snd (POST readable_pdf_platform (analyze_request example_scan)) =
      [PdfGetText (file_bytes example_scan),
       GenerateContent
         [Content (lit ''user'')
            [TextPart (SYSTEM_PROMPT readable_pdf_platform @ [0x0A, 0x0A]
               @ userPrompt (replicate 500 0x61))]]]"
    using key letters whole by (simp add: snd_deliver summarize_events)
  from pdf small empty letters untrimmed binary textual show ?thesis
    by simp
qed

text \<open>
  The claim as worded fails: a PDF whose extracted text is 600 blanks has at least 500
  characters of extracted text, yet the request takes the attachment call.
\<close>

theorem pdf_long_blank_text_counterexample:
  "isPdf blank_pages_platform example_scan
   \<and> extractTextFromFile blank_pages_platform example_scan =
       (Inr (replicate 600 0x20, file_bytes example_scan), [PdfGetText (file_bytes example_scan)])
   \<and> length (replicate 600 (0x20 :: 16 word)) \<ge> 500
   \<and> snd (POST blank_pages_platform (analyze_request example_scan)) =
       [PdfGetText (file_bytes example_scan),
        GenerateContent
          [Content (lit ''user'')
             [TextPart (SYSTEM_PROMPT blank_pages_platform @ [0x0A, 0x0A] @ scanned_prompt)],
           Content (lit ''user'')
             [InlineData pdf_mime
                (base64_toString blank_pages_platform (file_bytes example_scan))]]]"
proof -
  have pdf: "isPdf blank_pages_platform example_scan"
    by (simp add: isPdf_def example_scan_def pdf_mime_def)
  have small: "\<not> length (file_bytes example_scan) > MAX_FILE_BYTES"
    by (simp add: example_scan_def ascii_bytes_def MAX_FILE_BYTES_def)
  have ex: "extractTextFromFile blank_pages_platform example_scan =
      (Inr (replicate 600 0x20, file_bytes example_scan), [PdfGetText (file_bytes example_scan)])"
    using pdf small by (simp add: extract_pdf) (simp add: blank_pages_platform_def)
  have "trim (replicate 600 (0x20 :: 16 word)) = []"
    by (rule trim_all_white) (simp add: isWhiteSpace_def)
  then have scanned: "length (trim (replicate 600 (0x20 :: 16 word))) < 500"
    by simp
  have key: "GEMINI_API_KEY blank_pages_platform \<noteq> None
      \<and> GEMINI_API_KEY blank_pages_platform \<noteq> Some []"
    using example_platform_key by (simp add: blank_pages_platform_def)
  from POST_after_extract [OF ex] pdf scanned key
  have "snd (POST blank_pages_platform (analyze_request example_scan)) =
       [PdfGetText (file_bytes example_scan),
        GenerateContent
          [Content (lit ''user'')
             [TextPart (SYSTEM_PROMPT blank_pages_platform @ [0x0A, 0x0A] @ scanned_prompt)],
           Content (lit ''user'')
             [InlineData pdf_mime
                (base64_toString blank_pages_platform (file_bytes example_scan))]]]"
    by (simp add: snd_deliver summarize_events)
  with pdf ex show ?thesis by simp
qed

section \<open>The attachment sent for a scanned document\<close>

text \<open>
  C4, as the code has it. When the scanned-document test fires for a file classified as a
  PDF (within the size limit, credential configured), the attachment submitted to the
  model carries the base64 of the original bytes together with the fixed media type
  \<^verbatim>\<open>application/pdf\<close>, whatever media type the upload declared.
\<close>

theorem scanned_attachment_fixed_media_type:
  assumes "isPdf P f" and "length (file_bytes f) \<le> MAX_FILE_BYTES"
    and "GEMINI_API_KEY P \<noteq> None" and "GEMINI_API_KEY P \<noteq> Some []"
    and "extracted_text P f = [] \<or> length (trim (extracted_text P f)) < 500"
  shows "snd (POST P (analyze_request f)) =
     [PdfGetText (file_bytes f),
      GenerateContent
        [Content (lit ''user'') [TextPart (SYSTEM_PROMPT P @ [0x0A, 0x0A] @ scanned_prompt)],
         Content (lit ''user'')
           [InlineData (lit ''application/pdf'') (base64_toString P (file_bytes f))]]]"
proof -
  from assms have ex: "extractTextFromFile P f =
      (Inr (extracted_text P f, file_bytes f), [PdfGetText (file_bytes f)])"
    by (simp add: extract_pdf extracted_text_def)
  from POST_after_extract [OF ex] assms show ?thesis
    by (simp add: snd_deliver summarize_events pdf_mime_def)
qed

theorem scanned_attachment_fixed_media_type_witness:
  "isPdf example_platform example_scan
   \<and> length (file_bytes example_scan) \<le> MAX_FILE_BYTES
   \<and> GEMINI_API_KEY example_platform = Some (lit ''example-key'')
   \<and> extracted_text example_platform example_scan = []
   \<and> file_bytes example_scan = ascii_bytes ''%PDF-1.7''
   \<and> base64_toString example_platform (ascii_bytes ''%PDF-1.7'') = lit ''JVBERi0xLjc=''
   \<and> snd (POST example_platform (analyze_request example_scan)) =
       [PdfGetText (ascii_bytes ''%PDF-1.7''),
        GenerateContent
          [Content (lit ''user'')
             [TextPart (SYSTEM_PROMPT example_platform @ [0x0A, 0x0A] @ scanned_prompt)],
           Content (lit ''user'') [InlineData (lit ''application/pdf'') (lit ''JVBERi0xLjc='')]]]"
proof -
  have pdf: "isPdf example_platform example_scan"
    by (simp add: isPdf_def example_scan_def pdf_mime_def)
  have small: "length (file_bytes example_scan) \<le> MAX_FILE_BYTES"
    by (simp add: example_scan_def ascii_bytes_def MAX_FILE_BYTES_def)
  have key: "GEMINI_API_KEY example_platform = Some (lit ''example-key'')"
    by (simp add: example_platform_def)
  have empty: "extracted_text example_platform example_scan = []"
    using pdf by (simp add: extracted_text_def example_platform_def)
  have content: "file_bytes example_scan = ascii_bytes ''%PDF-1.7''"
    by (simp add: example_scan_def)
  have encoded: "base64_toString example_platform (ascii_bytes ''%PDF-1.7'') = lit ''JVBERi0xLjc=''"
    by (simp add: example_platform_def ascii_bytes_def base64_digit_def lit_def)
  from scanned_attachment_fixed_media_type [OF pdf small, simplified empty]
    example_platform_key
  have "snd (POST example_platform (analyze_request example_scan)) =
     [PdfGetText (file_bytes example_scan),
      GenerateContent
        [Content (lit ''user'')
           [TextPart (SYSTEM_PROMPT example_platform @ [0x0A, 0x0A] @ scanned_prompt)],
         Content (lit ''user'')
           [InlineData (lit ''application/pdf'')
              (base64_toString example_platform (file_bytes example_scan))]]]"
    by simp
  with pdf small key empty content encoded show ?thesis
    by simp
qed

text \<open>
  The claim as worded fails: an upload named \<^verbatim>\<open>scan.pdf\<close> that declares
  \<^verbatim>\<open>application/octet-stream\<close> is sent to the model labelled \<^verbatim>\<open>application/pdf\<close>, which is
  not its declared media type.
\<close>

theorem scanned_attachment_declared_type_counterexample:
  "isPdf example_platform example_octet
   \<and> extracted_text example_platform example_octet = []
   \<and> file_type example_octet = lit ''application/octet-stream''
   \<and> snd (POST example_platform (analyze_request example_octet)) =
       [PdfGetText (file_bytes example_octet),
        GenerateContent
          [Content (lit ''user'')
             [TextPart (SYSTEM_PROMPT example_platform @ [0x0A, 0x0A] @ scanned_prompt)],
           Content (lit ''user'')
             [InlineData (lit ''application/pdf'')
                (base64_toString example_platform (file_bytes example_octet))]]]
   \<and> lit ''application/pdf'' \<noteq> file_type example_octet"
proof -
  have pdf: "isPdf example_platform example_octet"
    by (simp add: isPdf_def example_octet_def example_platform_def lit_def endsWith_def
        ascii_lower_def)
  have small: "\<not> length (file_bytes example_octet) > MAX_FILE_BYTES"
    by (simp add: example_octet_def ascii_bytes_def MAX_FILE_BYTES_def)
  have empty: "extracted_text example_platform example_octet = []"
    using pdf by (simp add: extracted_text_def example_platform_def)
  have declared: "file_type example_octet = lit ''application/octet-stream''"
    and differs: "lit ''application/pdf'' \<noteq> file_type example_octet"
    by (simp_all add: example_octet_def lit_def)
  from pdf small empty have ex: "extractTextFromFile example_platform example_octet =
      (Inr ([], file_bytes example_octet), [PdfGetText (file_bytes example_octet)])"
    by (simp add: extract_pdf extracted_text_def)
  from POST_after_extract [OF ex] pdf example_platform_key
  have "snd (POST example_platform (analyze_request example_octet)) =
       [PdfGetText (file_bytes example_octet),
        GenerateContent
          [Content (lit ''user'')
             [TextPart (SYSTEM_PROMPT example_platform @ [0x0A, 0x0A] @ scanned_prompt)],
           Content (lit ''user'')
             [InlineData (lit ''application/pdf'')
                (base64_toString example_platform (file_bytes example_octet))]]]"
    by (simp add: snd_deliver summarize_events pdf_mime_def)
  with pdf empty declared differs show ?thesis
    by simp
qed

section \<open>Status classes of failures\<close>

text \<open>
  C3, as the code has it. Every failure response carries the status fixed for its kind.
  The two input checks of the handler (a wrong or missing tool selector, a missing file)
  answer with status 400, and these are the only responses with that status. Every
  failure raised as an exception inside the handler is answered by the \<^verbatim>\<open>catch\<close> block with
  status 500: a request whose form data cannot be read, an upload over the size limit,
  a missing credential, a model call that throws, a model that returns no text, and a
  text that does not parse. No other status than 200, 400 and 500 occurs, and the body
  of every response whose status is not 200 is a JSON object with the single string
  field \<^verbatim>\<open>error\<close>.
\<close>

theorem failure_status_classes:
  "(\<forall>fd. req = Inr fd \<and> tool fd \<noteq> Some (FormString (lit ''earnings_summary'')) \<longrightarrow>
       fst (POST P req) = failure 400 unsupported_tool_message)
   \<and> (\<forall>fd. req = Inr fd \<and> tool fd = Some (FormString (lit ''earnings_summary''))
          \<and> (\<forall>g. upload fd \<noteq> Some (FormFile g)) \<longrightarrow>
       fst (POST P req) = failure 400 no_file_message)
   \<and> (\<forall>e. req = Inl e \<longrightarrow>
       fst (POST P req) =
         failure 500 (case message e of Some m \<Rightarrow> m | None \<Rightarrow> unexpected_message))
   \<and> (length (file_bytes f) > MAX_FILE_BYTES \<longrightarrow>
       fst (POST P (analyze_request f)) = failure 500 (lit
         ''File is too large for this demo environment. Please keep files under ~20 MB.''))
   \<and> (length (file_bytes f) \<le> MAX_FILE_BYTES
        \<and> (GEMINI_API_KEY P = None \<or> GEMINI_API_KEY P = Some []) \<longrightarrow>
       fst (POST P (analyze_request f)) = failure 500 (lit
         ''GEMINI_API_KEY is not configured. Please set it in your environment.''))
   \<and> (length (file_bytes f) \<le> MAX_FILE_BYTES
        \<and> GEMINI_API_KEY P \<noteq> None \<and> GEMINI_API_KEY P \<noteq> Some [] \<longrightarrow>
       (\<forall>e. generateContent P (sent_contents P f) = Inl e \<longrightarrow>
          fst (POST P (analyze_request f)) =
            failure 500 (case message e of Some m \<Rightarrow> m | None \<Rightarrow> unexpected_message))
       \<and> (generateContent P (sent_contents P f) = Inr None
            \<or> generateContent P (sent_contents P f) = Inr (Some []) \<longrightarrow>
          fst (POST P (analyze_request f)) =
            failure 500 (lit ''No text returned from Gemini model.''))
       \<and> (\<forall>jsonText e. generateContent P (sent_contents P f) = Inr (Some jsonText)
             \<and> jsonText \<noteq> [] \<and> JSON_parse P jsonText = Inl e \<longrightarrow>
          fst (POST P (analyze_request f)) =
            failure 500 (case message e of Some m \<Rightarrow> m | None \<Rightarrow> unexpected_message)))
   \<and> (status (fst (POST P req)) = 400 \<longleftrightarrow>
        (\<exists>fd. req = Inr fd
           \<and> (tool fd \<noteq> Some (FormString (lit ''earnings_summary''))
                \<or> (\<forall>f. upload fd \<noteq> Some (FormFile f)))))
   \<and> (status (fst (POST P req)) = 500 \<longleftrightarrow> (\<exists>e. fst (POST_try P req) = Inl e))
   \<and> status (fst (POST P req)) \<in> {200, 400, 500}
   \<and> (status (fst (POST P req)) \<noteq> 200 \<longrightarrow>
        (\<exists>m. body (fst (POST P req)) = JObject [(lit ''error'', JString m)]))"
proof -
  have tool_check: "\<forall>fd. req = Inr fd
      \<and> tool fd \<noteq> Some (FormString (lit ''earnings_summary'')) \<longrightarrow>
      fst (POST P req) = failure 400 unsupported_tool_message"
    by (simp add: POST_def POST_try_def failure_def error_body_def)
  have file_check: "\<forall>fd. req = Inr fd \<and> tool fd = Some (FormString (lit ''earnings_summary''))
      \<and> (\<forall>g. upload fd \<noteq> Some (FormFile g)) \<longrightarrow>
      fst (POST P req) = failure 400 no_file_message"
    by (auto simp add: POST_def POST_try_def failure_def error_body_def
        split: option.splits form_value.splits)
  have unreadable: "\<forall>e. req = Inl e \<longrightarrow>
      fst (POST P req) =
        failure 500 (case message e of Some m \<Rightarrow> m | None \<Rightarrow> unexpected_message)"
    by (simp add: POST_def POST_try_def catch_response_failure)
  have oversize: "length (file_bytes f) > MAX_FILE_BYTES \<longrightarrow>
      fst (POST P (analyze_request f)) = failure 500 (lit
        ''File is too large for this demo environment. Please keep files under ~20 MB.'')"
    by (simp add: extract_too_large POST_extract_throws catch_response_failure
        too_large_error_def)
  have keyless: "length (file_bytes f) \<le> MAX_FILE_BYTES
      \<and> (GEMINI_API_KEY P = None \<or> GEMINI_API_KEY P = Some []) \<longrightarrow>
      fst (POST P (analyze_request f)) = failure 500 (lit
        ''GEMINI_API_KEY is not configured. Please set it in your environment.'')"
  proof
    assume h: "length (file_bytes f) \<le> MAX_FILE_BYTES
      \<and> (GEMINI_API_KEY P = None \<or> GEMINI_API_KEY P = Some [])"
    then have ex: "extractTextFromFile P f =
        (Inr (extracted_text P f, file_bytes f), [extraction_event P f])"
      by (simp add: extract_accepted)
    from h have "summarizeEarningsCall P promptContext imgData = (Inl config_missing_error, [])"
      for promptContext imgData
      by (simp add: summarize_no_key)
    with POST_after_extract [OF ex]
    show "fst (POST P (analyze_request f)) = failure 500 (lit
        ''GEMINI_API_KEY is not configured. Please set it in your environment.'')"
      by (simp add: deliver_def catch_response_failure config_missing_error_def)
  qed
  have model: "length (file_bytes f) \<le> MAX_FILE_BYTES
        \<and> GEMINI_API_KEY P \<noteq> None \<and> GEMINI_API_KEY P \<noteq> Some [] \<longrightarrow>
       (\<forall>e. generateContent P (sent_contents P f) = Inl e \<longrightarrow>
          fst (POST P (analyze_request f)) =
            failure 500 (case message e of Some m \<Rightarrow> m | None \<Rightarrow> unexpected_message))
       \<and> (generateContent P (sent_contents P f) = Inr None
            \<or> generateContent P (sent_contents P f) = Inr (Some []) \<longrightarrow>
          fst (POST P (analyze_request f)) =
            failure 500 (lit ''No text returned from Gemini model.''))
       \<and> (\<forall>jsonText e. generateContent P (sent_contents P f) = Inr (Some jsonText)
             \<and> jsonText \<noteq> [] \<and> JSON_parse P jsonText = Inl e \<longrightarrow>
          fst (POST P (analyze_request f)) =
            failure 500 (case message e of Some m \<Rightarrow> m | None \<Rightarrow> unexpected_message))"
  proof
    assume "length (file_bytes f) \<le> MAX_FILE_BYTES
        \<and> GEMINI_API_KEY P \<noteq> None \<and> GEMINI_API_KEY P \<noteq> Some []"
    then have post: "POST P (analyze_request f) =
       (case generateContent P (sent_contents P f) of
          Inl e \<Rightarrow> catch_response e
        | Inr None \<Rightarrow> catch_response no_text_error
        | Inr (Some jsonText) \<Rightarrow>
            if jsonText = [] then catch_response no_text_error
            else (case JSON_parse P jsonText of
                    Inl e \<Rightarrow> catch_response e
                  | Inr j \<Rightarrow> \<lparr>status = 200, body = JSON_stringify j\<rparr>),
        [extraction_event P f, GenerateContent (sent_contents P f)])"
      by (simp add: POST_accepted)
    have silent: "catch_response no_text_error =
        failure 500 (lit ''No text returned from Gemini model.'')"
      by (simp add: catch_response_failure no_text_error_def)
    show "(\<forall>e. generateContent P (sent_contents P f) = Inl e \<longrightarrow>
          fst (POST P (analyze_request f)) =
            failure 500 (case message e of Some m \<Rightarrow> m | None \<Rightarrow> unexpected_message))
       \<and> (generateContent P (sent_contents P f) = Inr None
            \<or> generateContent P (sent_contents P f) = Inr (Some []) \<longrightarrow>
          fst (POST P (analyze_request f)) =
            failure 500 (lit ''No text returned from Gemini model.''))
       \<and> (\<forall>jsonText e. generateContent P (sent_contents P f) = Inr (Some jsonText)
             \<and> jsonText \<noteq> [] \<and> JSON_parse P jsonText = Inl e \<longrightarrow>
          fst (POST P (analyze_request f)) =
            failure 500 (case message e of Some m \<Rightarrow> m | None \<Rightarrow> unexpected_message))"
      unfolding post using silent by (auto simp add: catch_response_failure)
  qed
  from tool_check file_check unreadable oversize keyless model POST_status_cases [of P req]
  show ?thesis
    by blast
qed

theorem failure_status_classes_witness:
  "tool (projr wrong_tool_request) \<noteq> Some (FormString (lit ''earnings_summary''))
   \<and> fst (POST example_platform wrong_tool_request) = failure 400 unsupported_tool_message
   \<and> upload (projr no_file_request) = None
   \<and> fst (POST example_platform no_file_request) = failure 400 no_file_message
   \<and> fst (POST example_platform (Inl (Thrown None))) = failure 500 unexpected_message
   \<and> length (file_bytes example_oversize) > MAX_FILE_BYTES
   \<and> fst (POST example_platform (analyze_request example_oversize)) = failure 500 (lit
        ''File is too large for this demo environment. Please keep files under ~20 MB.'')
   \<and> length (file_bytes example_notes) \<le> MAX_FILE_BYTES
   \<and> GEMINI_API_KEY keyless_platform = None
   \<and> fst (POST keyless_platform (analyze_request example_notes)) = failure 500 (lit
        ''GEMINI_API_KEY is not configured. Please set it in your environment.'')
   \<and> generateContent failing_model_platform (sent_contents failing_model_platform example_notes)
       = Inl (Thrown (Some (lit ''503 Service Unavailable'')))
   \<and> fst (POST failing_model_platform (analyze_request example_notes)) =
       failure 500 (lit ''503 Service Unavailable'')
   \<and> generateContent silent_model_platform (sent_contents silent_model_platform example_notes)
       = Inr None
   \<and> fst (POST silent_model_platform (analyze_request example_notes)) =
       failure 500 (lit ''No text returned from Gemini model.'')
   \<and> generateContent garbled_model_platform (sent_contents garbled_model_platform example_notes)
       = Inr (Some (lit ''Sorry, I cannot''))
   \<and> JSON_parse garbled_model_platform (lit ''Sorry, I cannot'') =
       Inl (Thrown (Some (lit ''Unexpected token in JSON'')))
   \<and> fst (POST garbled_model_platform (analyze_request example_notes)) =
       failure 500 (lit ''Unexpected token in JSON'')
   \<and> status (failure 500 (lit ''Unexpected token in JSON'')) = 500"
proof -
  have wrong: "tool (projr wrong_tool_request) \<noteq> Some (FormString (lit ''earnings_summary''))"
    by (simp add: wrong_tool_request_def lit_def)
  then have r1: "fst (POST example_platform wrong_tool_request) =
      failure 400 unsupported_tool_message"
    using failure_status_classes [of wrong_tool_request example_platform]
    by (simp add: wrong_tool_request_def)
  have missing: "upload (projr no_file_request) = None"
    by (simp add: no_file_request_def)
  then have r2: "fst (POST example_platform no_file_request) = failure 400 no_file_message"
    using failure_status_classes [of no_file_request example_platform]
    by (simp add: no_file_request_def)
  have r3: "fst (POST example_platform (Inl (Thrown None))) = failure 500 unexpected_message"
    using failure_status_classes [of "Inl (Thrown None)" example_platform]
    by simp
  have big: "length (file_bytes example_oversize) > MAX_FILE_BYTES"
    by (simp add: example_oversize_def MAX_FILE_BYTES_def)
  then have r4: "fst (POST example_platform (analyze_request example_oversize)) =
      failure 500 (lit
        ''File is too large for this demo environment. Please keep files under ~20 MB.'')"
    using failure_status_classes [of _ example_platform example_oversize]
    by blast
  have small: "length (file_bytes example_notes) \<le> MAX_FILE_BYTES"
    by (simp add: example_notes_def ascii_bytes_def MAX_FILE_BYTES_def)
  have nokey: "GEMINI_API_KEY keyless_platform = None"
    by (simp add: keyless_platform_def)
  with small have r5: "fst (POST keyless_platform (analyze_request example_notes)) =
      failure 500 (lit
        ''GEMINI_API_KEY is not configured. Please set it in your environment.'')"
    using failure_status_classes [of _ keyless_platform example_notes]
    by blast
  have key: "GEMINI_API_KEY failing_model_platform \<noteq> None
        \<and> GEMINI_API_KEY failing_model_platform \<noteq> Some []"
      "GEMINI_API_KEY silent_model_platform \<noteq> None
        \<and> GEMINI_API_KEY silent_model_platform \<noteq> Some []"
      "GEMINI_API_KEY garbled_model_platform \<noteq> None
        \<and> GEMINI_API_KEY garbled_model_platform \<noteq> Some []"
    using example_platform_key
    by (simp_all add: failing_model_platform_def silent_model_platform_def
        garbled_model_platform_def)
  have throws: "generateContent failing_model_platform
      (sent_contents failing_model_platform example_notes)
      = Inl (Thrown (Some (lit ''503 Service Unavailable'')))"
    by (simp add: failing_model_platform_def)
  with small key(1) have r6: "fst (POST failing_model_platform (analyze_request example_notes)) =
      failure 500 (case message (Thrown (Some (lit ''503 Service Unavailable''))) of
        Some m \<Rightarrow> m | None \<Rightarrow> unexpected_message)"
    using failure_status_classes [of _ failing_model_platform example_notes]
    by blast
  have silent: "generateContent silent_model_platform
      (sent_contents silent_model_platform example_notes) = Inr None"
    by (simp add: silent_model_platform_def)
  with small key(2) have r7: "fst (POST silent_model_platform (analyze_request example_notes)) =
      failure 500 (lit ''No text returned from Gemini model.'')"
    using failure_status_classes [of _ silent_model_platform example_notes]
    by blast
  have garbled: "generateContent garbled_model_platform
      (sent_contents garbled_model_platform example_notes)
      = Inr (Some (lit ''Sorry, I cannot''))"
    and nonempty: "lit ''Sorry, I cannot'' \<noteq> []"
    by (simp_all add: garbled_model_platform_def lit_def)
  have unparsed: "JSON_parse garbled_model_platform (lit ''Sorry, I cannot'') =
      Inl (Thrown (Some (lit ''Unexpected token in JSON'')))"
    by (simp add: garbled_model_platform_def example_platform_def tone_only_text_def lit_def)
  with small key(3) garbled nonempty
  have r8: "fst (POST garbled_model_platform (analyze_request example_notes)) =
      failure 500 (case message (Thrown (Some (lit ''Unexpected token in JSON''))) of
        Some m \<Rightarrow> m | None \<Rightarrow> unexpected_message)"
    using failure_status_classes [of _ garbled_model_platform example_notes]
    by blast
  have "status (failure 500 (lit ''Unexpected token in JSON'')) = 500"
    by (simp add: failure_def)
  with wrong r1 missing r2 r3 big r4 small nokey r5 throws r6 silent r7 garbled unparsed r8
  show ?thesis
    by simp
qed

text \<open>
  The claim as worded fails: an upload over the size limit is a client-input failure in
  the claim's list, and its response has status 500, not a status of the 400 class.
\<close>

theorem oversize_status_counterexample:
  "length (file_bytes example_oversize) > MAX_FILE_BYTES
   \<and> fst (POST example_platform (analyze_request example_oversize)) =
       \<lparr>status = 500, body = JObject [(lit ''error'', JString (lit
          ''File is too large for this demo environment. Please keep files under ~20 MB.''))]\<rparr>
   \<and> \<not> (400 \<le> status (fst (POST example_platform (analyze_request example_oversize)))
         \<and> status (fst (POST example_platform (analyze_request example_oversize))) < 500)"
proof -
  have big: "length (file_bytes example_oversize) > MAX_FILE_BYTES"
    by (simp add: example_oversize_def MAX_FILE_BYTES_def)
  then have "POST example_platform (analyze_request example_oversize) =
      (catch_response too_large_error, [])"
    by (simp add: extract_too_large POST_extract_throws)
  with big show ?thesis
    by (simp add: catch_response_def too_large_error_def error_body_def)
qed

section \<open>The response on success\<close>

text \<open>
  C1, as the code has it. There is no normalization step: the body of every response with
  status 200 is the JSON serialisation of the value that \<^verbatim>\<open>JSON.parse\<close> produced from the
  text the model returned; and for an accepted upload within the size limit, with the
  credential configured, a model that answers the submitted contents with a non-empty
  text that parses to \<open>j\<close> yields the response with status 200 and the serialisation of
  \<open>j\<close> as body. The serialisation has a field exactly where \<open>j\<close> has one, holding the
  serialisation of its value, so no field is added, defaulted, dropped or renamed; it is
  \<open>j\<close> itself when every number in \<open>j\<close> is finite and not the negative zero, and a
  non-finite number is written as \<^verbatim>\<open>null\<close>. In particular a model payload of
  \<^verbatim>\<open>{"tone":"optimistic"}\<close> alone yields a response holding that one key.
\<close>

theorem success_body_is_parsed_payload:
  "(status (fst (POST P req)) = 200 \<longrightarrow>
      (\<exists>contents jsonText parsed. GenerateContent contents \<in> set (snd (POST P req))
         \<and> generateContent P contents = Inr (Some jsonText)
         \<and> JSON_parse P jsonText = Inr parsed
         \<and> body (fst (POST P req)) = JSON_stringify parsed))
   \<and> (length (file_bytes f) \<le> MAX_FILE_BYTES
        \<and> GEMINI_API_KEY P \<noteq> None \<and> GEMINI_API_KEY P \<noteq> Some []
        \<and> generateContent P (sent_contents P f) = Inr (Some jsonText)
        \<and> jsonText \<noteq> [] \<and> JSON_parse P jsonText = Inr j
      \<longrightarrow> fst (POST P (analyze_request f)) = \<lparr>status = 200, body = JSON_stringify j\<rparr>)
   \<and> get_field (JSON_stringify j) k = map_option JSON_stringify (get_field j k)
   \<and> (plain_numbers j \<longrightarrow> JSON_stringify j = j)
   \<and> JSON_stringify (JNumber PosInfinity) = JNull
   \<and> JSON_stringify (JNumber NegInfinity) = JNull"
proof (intro conjI impI)
  assume ok: "status (fst (POST P req)) = 200"
  have "\<exists>g. req = analyze_request g"
  proof (rule ccontr)
    assume "\<not> (\<exists>g. req = analyze_request g)"
    then have "\<forall>g. req \<noteq> analyze_request g" by simp
    from POST_rejected_response [OF this, of P] ok show False
      by (auto simp add: catch_response_simp)
  qed
  then obtain g where req: "req = analyze_request g" ..
  obtain r t where ex: "extractTextFromFile P g = (r, t)"
    by (cases "extractTextFromFile P g")
  show "\<exists>contents jsonText parsed. GenerateContent contents \<in> set (snd (POST P req))
      \<and> generateContent P contents = Inr (Some jsonText)
      \<and> JSON_parse P jsonText = Inr parsed
      \<and> body (fst (POST P req)) = JSON_stringify parsed"
  proof (cases r)
    case (Inl e)
    with ex req ok show ?thesis
      by (simp add: POST_extract_throws catch_response_simp)
  next
    case (Inr p)
    obtain tx buffer where "p = (tx, buffer)" by (cases p)
    with Inr ex have ex': "extractTextFromFile P g = (Inr (tx, buffer), t)" by simp
    define call where "call =
      (if isPdf P g \<and> (tx = [] \<or> length (trim tx) < 500)
       then summarizeEarningsCall P scanned_prompt
              (Some (InlineData pdf_mime (base64_toString P buffer)))
       else summarizeEarningsCall P (userPrompt (string_slice tx 0 MAX_CHARS)) None)"
    from POST_after_extract [OF ex'] have post: "POST P req = deliver t call"
      by (auto simp add: req call_def)
    obtain r' t' where c: "call = (r', t')" by (cases call)
    from ok post c obtain s where s: "r' = Inr s"
      by (cases r') (simp_all add: deliver_def catch_response_simp)
    from c s have "\<exists>contents jsonText. t' = [GenerateContent contents]
        \<and> generateContent P contents = Inr (Some jsonText) \<and> JSON_parse P jsonText = Inr s"
      by (auto simp add: call_def dest: summarize_success split: if_splits)
    then obtain contents jsonText where "t' = [GenerateContent contents]"
      and "generateContent P contents = Inr (Some jsonText)"
      and "JSON_parse P jsonText = Inr s"
      by blast
    moreover from post c s have "POST P req = (\<lparr>status = 200, body = JSON_stringify s\<rparr>, t @ t')"
      by (simp add: deliver_def)
    ultimately have "GenerateContent contents \<in> set (snd (POST P req))
        \<and> generateContent P contents = Inr (Some jsonText)
        \<and> JSON_parse P jsonText = Inr s
        \<and> body (fst (POST P req)) = JSON_stringify s"
      by simp
    then show ?thesis by blast
  qed
next
  assume "length (file_bytes f) \<le> MAX_FILE_BYTES
      \<and> GEMINI_API_KEY P \<noteq> None \<and> GEMINI_API_KEY P \<noteq> Some []
      \<and> generateContent P (sent_contents P f) = Inr (Some jsonText)
      \<and> jsonText \<noteq> [] \<and> JSON_parse P jsonText = Inr j"
  then show "fst (POST P (analyze_request f)) = \<lparr>status = 200, body = JSON_stringify j\<rparr>"
    by (simp add: POST_accepted)
next
  show "get_field (JSON_stringify j) k = map_option JSON_stringify (get_field j k)"
    by (rule get_field_stringify)
next
  assume "plain_numbers j"
  then show "JSON_stringify j = j"
    by (rule stringify_plain)
qed simp_all

theorem success_body_is_parsed_payload_witness:
  "length (file_bytes example_notes) \<le> MAX_FILE_BYTES
   \<and> GEMINI_API_KEY example_platform = Some (lit ''example-key'')
   \<and> generateContent example_platform (sent_contents example_platform example_notes) =
       Inr (Some tone_only_text)
   \<and> JSON_parse example_platform tone_only_text = Inr tone_only
   \<and> plain_numbers tone_only
   \<and> fst (POST example_platform (analyze_request example_notes)) =
       \<lparr>status = 200, body = tone_only\<rparr>
   \<and> generateContent overflow_platform (sent_contents overflow_platform example_notes) =
       Inr (Some overflow_text)
   \<and> JSON_parse overflow_platform overflow_text =
       Inr (JObject [(lit ''confidence'', JNumber PosInfinity)])
   \<and> fst (POST overflow_platform (analyze_request example_notes)) =
       \<lparr>status = 200, body = JObject [(lit ''confidence'', JNull)]\<rparr>"
proof -
  have small: "length (file_bytes example_notes) \<le> MAX_FILE_BYTES"
    by (simp add: example_notes_def ascii_bytes_def MAX_FILE_BYTES_def)
  have key: "GEMINI_API_KEY example_platform = Some (lit ''example-key'')"
    by (simp add: example_platform_def)
  have model: "generateContent example_platform (sent_contents example_platform example_notes) =
      Inr (Some tone_only_text)"
    by (simp add: example_platform_def)
  have nonempty: "tone_only_text \<noteq> []"
    by (simp add: tone_only_text_def lit_def)
  have parse: "JSON_parse example_platform tone_only_text = Inr tone_only"
    by (simp add: example_platform_def)
  have plain: "plain_numbers tone_only"
    by (simp add: tone_only_def)
  note inst = success_body_is_parsed_payload
    [of example_platform _ example_notes tone_only_text tone_only]
  from inst plain have same: "JSON_stringify tone_only = tone_only"
    by blast
  from inst small example_platform_key model nonempty parse
  have "fst (POST example_platform (analyze_request example_notes)) =
      \<lparr>status = 200, body = JSON_stringify tone_only\<rparr>"
    by blast
  with same have first: "fst (POST example_platform (analyze_request example_notes)) =
      \<lparr>status = 200, body = tone_only\<rparr>"
    by (simp only:)
  have key': "GEMINI_API_KEY overflow_platform \<noteq> None
      \<and> GEMINI_API_KEY overflow_platform \<noteq> Some []"
    using example_platform_key by (simp add: overflow_platform_def)
  have model': "generateContent overflow_platform
      (sent_contents overflow_platform example_notes) = Inr (Some overflow_text)"
    by (simp add: overflow_platform_def)
  have nonempty': "overflow_text \<noteq> []"
    by (simp add: overflow_text_def lit_def)
  have parse': "JSON_parse overflow_platform overflow_text =
      Inr (JObject [(lit ''confidence'', JNumber PosInfinity)])"
    by (simp add: overflow_platform_def)
  from success_body_is_parsed_payload
    [of overflow_platform _ example_notes overflow_text
      "JObject [(lit ''confidence'', JNumber PosInfinity)]"]
    small key' model' nonempty' parse'
  have "fst (POST overflow_platform (analyze_request example_notes)) =
      \<lparr>status = 200,
       body = JSON_stringify (JObject [(lit ''confidence'', JNumber PosInfinity)])\<rparr>"
    by blast
  then have second: "fst (POST overflow_platform (analyze_request example_notes)) =
      \<lparr>status = 200, body = JObject [(lit ''confidence'', JNull)]\<rparr>"
    by simp
  from small key model parse plain first model' parse' second show ?thesis
    by simp
qed

text \<open>
  The claim as worded fails: when the model's payload is \<^verbatim>\<open>{"tone":"optimistic"}\<close> alone,
  the response is that object and nothing more; the required key \<^verbatim>\<open>confidence\<close> is absent
  from it, so it is not \<^verbatim>\<open>"unknown"\<close>, and \<^verbatim>\<open>key_positives\<close> is absent, not the empty list.
\<close>

theorem tone_only_payload_counterexample:
  "generateContent example_platform
       [Content (lit ''user'') [TextPart (SYSTEM_PROMPT example_platform @ [0x0A, 0x0A]
          @ userPrompt (lit ''Revenue grew 12% and margins expanded.''))]]
     = Inr (Some tone_only_text)
   \<and> JSON_parse example_platform tone_only_text =
       Inr (JObject [(lit ''tone'', JString (lit ''optimistic''))])
   \<and> fst (POST example_platform (analyze_request example_txt)) =
       \<lparr>status = 200, body = JObject [(lit ''tone'', JString (lit ''optimistic''))]\<rparr>
   \<and> lit ''confidence'' \<in> set required
   \<and> get_field (body (fst (POST example_platform (analyze_request example_txt))))
         (lit ''confidence'') = None
   \<and> get_field (body (fst (POST example_platform (analyze_request example_txt))))
         (lit ''confidence'') \<noteq> Some (JString (lit ''unknown''))
   \<and> get_field (body (fst (POST example_platform (analyze_request example_txt))))
         (lit ''key_positives'') \<noteq> Some (JArray [])"
proof -
  have plain: "\<not> isPdf example_platform example_txt"
    by (simp add: isPdf_def example_txt_def example_platform_def pdf_mime_def lit_def
        endsWith_def ascii_lower_def)
  have small: "\<not> length (file_bytes example_txt) > MAX_FILE_BYTES"
    by (simp add: example_txt_def ascii_bytes_def MAX_FILE_BYTES_def)
  from plain small have ex: "extractTextFromFile example_platform example_txt =
      (Inr (utf8_toString example_platform (file_bytes example_txt), file_bytes example_txt),
       [Utf8Decode (file_bytes example_txt)])"
    by (simp add: extract_plain)
  from POST_after_extract [OF ex] plain
  have response: "fst (POST example_platform (analyze_request example_txt)) =
      \<lparr>status = 200, body = JObject [(lit ''tone'', JString (lit ''optimistic''))]\<rparr>"
    by (simp add: example_summarize deliver_def tone_only_def)
  have model: "generateContent example_platform
       [Content (lit ''user'') [TextPart (SYSTEM_PROMPT example_platform @ [0x0A, 0x0A]
          @ userPrompt (lit ''Revenue grew 12% and margins expanded.''))]]
     = Inr (Some tone_only_text)"
    and parse: "JSON_parse example_platform tone_only_text =
       Inr (JObject [(lit ''tone'', JString (lit ''optimistic''))])"
    by (simp_all add: example_platform_def tone_only_def)
  have req: "lit ''confidence'' \<in> set required"
    by (simp add: required_def)
  have absent: "get_field (JObject [(lit ''tone'', JString (lit ''optimistic''))])
      (lit ''confidence'') = None"
    and absent': "get_field (JObject [(lit ''tone'', JString (lit ''optimistic''))])
      (lit ''key_positives'') = None"
    by (simp_all add: get_field_def lit_def)
  from response model parse req absent absent' show ?thesis
    by simp
qed

end
